theory Spec2Isabelle
  imports Complex_Main "HOL-Library.Word"
begin

section \<open>The spherical harmonics gravity field model of Tudat\<close>

text \<open>
  A shallow embedding of \<^verbatim>\<open>sphericalHarmonicsGravityField.cpp\<close>
  (Astrodynamics/EnvironmentModels/GravityFieldModel).

  Numbers. A C++ \<^verbatim>\<open>double\<close> is modelled by a \<^typ>\<open>real\<close>: every
  arithmetic operation is the exact one, a literal denotes its decimal value, and the
  negative zero \<^verbatim>\<open>-0.0\<close> is the number \<open>0\<close>. Rounding, overflow
  and the sign of zero are outside this model, and every statement below about a computed
  number is a statement about the exact value of the expression the source evaluates.
  The one exception is the gradient tensor, whose symmetry and trace depend on the
  rounding: it is evaluated a second time with every operation rounded as binary64
  arithmetic rounds it, in \<open>getGradientTensorOfPotential_binary64\<close>.
  A division by zero gives an infinity or a NaN in the source, which is no real number:
  it is \<open>None\<close> in the model, see \<open>divide_double\<close> and
  \<open>divide_Vector3d\<close>.
  An \<^verbatim>\<open>unsigned int\<close> is a \<^typ>\<open>32 word\<close>.
\<close>

subsection \<open>Scalars\<close>

definition divide_double :: "real \<Rightarrow> real \<Rightarrow> real option" where
  "divide_double a b = (if b = 0 then None else Some (a / b))"

text \<open>
  Modelled from the spec: \<^verbatim>\<open>mathematics::raiseToIntegerPower\<close> is a helper
  of this repository whose definition is not among the sources. The spec has the integer
  powers computed as repeated multiplication; the two calls of this file pass the
  exponents 3 and 5, so the exponent is a natural number here.
\<close>

fun raiseToIntegerPower :: "real \<Rightarrow> nat \<Rightarrow> real" where
  "raiseToIntegerPower baseValue 0 = 1"
| "raiseToIntegerPower baseValue (Suc integerPower) =
     baseValue * raiseToIntegerPower baseValue integerPower"

subsection \<open>Vectors and matrices\<close>

text \<open>
  The source uses the dense types \<^verbatim>\<open>Vector3d\<close> and \<^verbatim>\<open>Matrix3d\<close>
  of the linear algebra library: a vector is its three coefficients, a matrix its three
  rows. The operations below are the library's operators the source calls, coefficient by
  coefficient: \<^verbatim>\<open>a - b\<close>, \<^verbatim>\<open>squaredNorm()\<close>, \<^verbatim>\<open>norm()\<close>,
  \<^verbatim>\<open>c * v\<close>, \<^verbatim>\<open>v / c\<close>, \<^verbatim>\<open>a * b.transpose()\<close>,
  \<^verbatim>\<open>setIdentity(3, 3)\<close>, \<^verbatim>\<open>c * m\<close> and \<^verbatim>\<open>m - n\<close>.
\<close>

type_synonym Vector3d = "real \<times> real \<times> real"

type_synonym Matrix3d = "Vector3d \<times> Vector3d \<times> Vector3d"

fun minus_Vector3d :: "Vector3d \<Rightarrow> Vector3d \<Rightarrow> Vector3d" where
  "minus_Vector3d (a1, a2, a3) (b1, b2, b3) = (a1 - b1, a2 - b2, a3 - b3)"

fun squaredNorm :: "Vector3d \<Rightarrow> real" where
  "squaredNorm (a1, a2, a3) = a1 * a1 + a2 * a2 + a3 * a3"

definition norm_Vector3d :: "Vector3d \<Rightarrow> real" where
  "norm_Vector3d a = sqrt (squaredNorm a)"

fun scale_Vector3d :: "real \<Rightarrow> Vector3d \<Rightarrow> Vector3d" where
  "scale_Vector3d c (a1, a2, a3) = (c * a1, c * a2, c * a3)"

fun divide_Vector3d :: "Vector3d \<Rightarrow> real \<Rightarrow> Vector3d option" where
  "divide_Vector3d (a1, a2, a3) c =
     (if c = 0 then None else Some (a1 / c, a2 / c, a3 / c))"

fun times_transpose :: "Vector3d \<Rightarrow> Vector3d \<Rightarrow> Matrix3d" where
  "times_transpose (a1, a2, a3) (b1, b2, b3) =
     ((a1 * b1, a1 * b2, a1 * b3),
      (a2 * b1, a2 * b2, a2 * b3),
      (a3 * b1, a3 * b2, a3 * b3))"

definition setIdentity :: Matrix3d where
  "setIdentity = ((1, 0, 0), (0, 1, 0), (0, 0, 1))"

fun scale_Matrix3d :: "real \<Rightarrow> Matrix3d \<Rightarrow> Matrix3d" where
  "scale_Matrix3d c (r1, r2, r3) =
     (scale_Vector3d c r1, scale_Vector3d c r2, scale_Vector3d c r3)"

fun minus_Matrix3d :: "Matrix3d \<Rightarrow> Matrix3d \<Rightarrow> Matrix3d" where
  "minus_Matrix3d (r1, r2, r3) (q1, q2, q3) =
     (minus_Vector3d r1 q1, minus_Vector3d r2 q2, minus_Vector3d r3 q3)"

text \<open>The transpose and the trace of a matrix, to state what a returned matrix is.\<close>

fun transpose_Matrix3d :: "Matrix3d \<Rightarrow> Matrix3d" where
  "transpose_Matrix3d ((m11, m12, m13), (m21, m22, m23), (m31, m32, m33)) =
     ((m11, m21, m31), (m12, m22, m32), (m13, m23, m33))"

fun trace_Matrix3d :: "Matrix3d \<Rightarrow> real" where
  "trace_Matrix3d ((m11, m12, m13), (m21, m22, m23), (m31, m32, m33)) = m11 + m22 + m33"

subsection \<open>The model's state\<close>

text \<open>
  The class declaration is in \<^verbatim>\<open>sphericalHarmonicsGravityField.h\<close>, which is
  not among the sources. The fields are those the source file reads and writes. The first
  three are inherited from the base class \<^verbatim>\<open>GravityFieldModel\<close>; the two
  positions are \<^verbatim>\<open>CartesianPositionElements\<close> objects, modelled by their
  \<^verbatim>\<open>state\<close> vector. The degree and the order are assigned from
  \<^verbatim>\<open>unsigned int\<close> arguments: 32-bit patterns, whatever the signedness
  of their declaration.
\<close>

record GravityFieldModel =
  gravitationalParameter :: real
  positionOfOrigin :: Vector3d
  relativePosition :: Vector3d

record SphericalHarmonicsGravityField = GravityFieldModel +
  degreeOfExpansion :: "32 word"
  orderOfExpansion :: "32 word"
  referenceRadius :: real
  j2SphericalHarmonicsGravityFieldCoefficient :: real
  j3SphericalHarmonicsGravityFieldCoefficient :: real
  j4SphericalHarmonicsGravityFieldCoefficient :: real

text \<open>
  The enumeration of the predefined bodies is declared in the header as well. The source
  names two of its values; \<open>otherBody n\<close> stands for every other value an object of
  the enumeration type can hold, each of which takes the \<^verbatim>\<open>default\<close>
  branch of the switch.
\<close>

datatype BodiesWithPredefinedSphericalHarmonicsGravityFields =
    earthWorldGeodeticSystem72
  | earthWorldGeodeticSystem84
  | otherBody nat

subsection \<open>Construction and configuration\<close>

text \<open>
  The default constructor \<^verbatim>\<open>SphericalHarmonicsGravityField( )\<close>. The
  inherited fields are initialised by the constructor of the base class (in the header):
  they are the argument \<open>base\<close>. The initialisers
  \<^verbatim>\<open>-0\<close> and \<^verbatim>\<open>-0.0\<close> are written as in the source.
\<close>

definition defaultConstructor :: "GravityFieldModel \<Rightarrow> SphericalHarmonicsGravityField" where
  "defaultConstructor base =
     \<lparr> gravitationalParameter = gravitationalParameter base,
       positionOfOrigin = positionOfOrigin base,
       relativePosition = relativePosition base,
       degreeOfExpansion = - 0,
       orderOfExpansion = - 0,
       referenceRadius = - 0,
       j2SphericalHarmonicsGravityFieldCoefficient = - 0,
       j3SphericalHarmonicsGravityFieldCoefficient = - 0,
       j4SphericalHarmonicsGravityFieldCoefficient = - 0 \<rparr>"

text \<open>
  A member function that writes to the object returns the new object. The function that
  may print returns the lines it sends to \<^verbatim>\<open>cerr\<close> as well.
\<close>

fun setPredefinedSphericalHarmonicsGravityFieldSettings ::
  "SphericalHarmonicsGravityField \<Rightarrow> BodiesWithPredefinedSphericalHarmonicsGravityFields
     \<Rightarrow> string list \<times> SphericalHarmonicsGravityField" where
  "setPredefinedSphericalHarmonicsGravityFieldSettings s earthWorldGeodeticSystem72 =
     ([], s\<lparr> gravitationalParameter := 398600.8 * 10 ^ 9,
              referenceRadius := 6378.135 * 10 ^ 3,
              j2SphericalHarmonicsGravityFieldCoefficient := 0.001082616,
              j3SphericalHarmonicsGravityFieldCoefficient := - 0.00000253881,
              j4SphericalHarmonicsGravityFieldCoefficient := - 0.00000165597 \<rparr>)"
| "setPredefinedSphericalHarmonicsGravityFieldSettings s earthWorldGeodeticSystem84 =
     ([], s\<lparr> gravitationalParameter := 398600.4418 * 10 ^ 9,
              referenceRadius := 6378.137 * 10 ^ 3,
              j2SphericalHarmonicsGravityFieldCoefficient := 0.00108262998905,
              j3SphericalHarmonicsGravityFieldCoefficient := - 0.00000253215306,
              j4SphericalHarmonicsGravityFieldCoefficient := - 0.00000161098761 \<rparr>)"
| "setPredefinedSphericalHarmonicsGravityFieldSettings s (otherBody n) =
     ([''Desired predefined spherical harmonics gravity field does not exist.''], s)"

definition setReferenceRadius ::
  "SphericalHarmonicsGravityField \<Rightarrow> real \<Rightarrow> SphericalHarmonicsGravityField" where
  "setReferenceRadius s referenceRadius' = s\<lparr> referenceRadius := referenceRadius' \<rparr>"

definition setDegreeOfExpansion ::
  "SphericalHarmonicsGravityField \<Rightarrow> 32 word \<Rightarrow> SphericalHarmonicsGravityField" where
  "setDegreeOfExpansion s degreeOfExpansion' = s\<lparr> degreeOfExpansion := degreeOfExpansion' \<rparr>"

definition setOrderOfExpansion ::
  "SphericalHarmonicsGravityField \<Rightarrow> 32 word \<Rightarrow> SphericalHarmonicsGravityField" where
  "setOrderOfExpansion s orderOfExpansion' = s\<lparr> orderOfExpansion := orderOfExpansion' \<rparr>"

definition getReferenceRadius :: "SphericalHarmonicsGravityField \<Rightarrow> real" where
  "getReferenceRadius s = referenceRadius s"

text \<open>
  The fields that persist between calls: all of them but the scratch value
  \<open>relativePosition\<close>, which every evaluation overwrites before reading it.
\<close>

definition persistentFields ::
  "SphericalHarmonicsGravityField \<Rightarrow>
     real \<times> real \<times> 32 word \<times> 32 word \<times> real \<times> real \<times> real \<times> Vector3d" where
  "persistentFields s =
     (gravitationalParameter s, referenceRadius s, degreeOfExpansion s, orderOfExpansion s,
      j2SphericalHarmonicsGravityFieldCoefficient s,
      j3SphericalHarmonicsGravityFieldCoefficient s,
      j4SphericalHarmonicsGravityFieldCoefficient s, positionOfOrigin s)"

subsection \<open>Evaluation\<close>

text \<open>
  Each of the three functions takes a pointer to the queried position and reads its
  \<^verbatim>\<open>state\<close> vector: the argument \<open>position\<close>. Each first stores the
  relative position in the object, then computes from the stored value; the result is
  paired with the object as the call leaves it.
\<close>

definition getPotential ::
  "SphericalHarmonicsGravityField \<Rightarrow> Vector3d \<Rightarrow> real option \<times> SphericalHarmonicsGravityField" where
  "getPotential s position =
     (let s' = s\<lparr> relativePosition := minus_Vector3d position (positionOfOrigin s) \<rparr>
      in (divide_double (gravitationalParameter s') (norm_Vector3d (relativePosition s')), s'))"

definition getGradientOfPotential ::
  "SphericalHarmonicsGravityField \<Rightarrow> Vector3d \<Rightarrow> Vector3d option \<times> SphericalHarmonicsGravityField" where
  "getGradientOfPotential s position =
     (let s' = s\<lparr> relativePosition := minus_Vector3d position (positionOfOrigin s) \<rparr>
      in (divide_Vector3d
            (scale_Vector3d (- gravitationalParameter s') (relativePosition s'))
            (raiseToIntegerPower (norm_Vector3d (relativePosition s')) 3), s'))"

definition getGradientTensorOfPotential ::
  "SphericalHarmonicsGravityField \<Rightarrow> Vector3d \<Rightarrow> Matrix3d option \<times> SphericalHarmonicsGravityField" where
  "getGradientTensorOfPotential s position =
     (let identityMatrix = setIdentity;
          s' = s\<lparr> relativePosition := minus_Vector3d position (positionOfOrigin s) \<rparr>
      in (case divide_double (gravitationalParameter s')
                 (raiseToIntegerPower (norm_Vector3d (relativePosition s')) 5) of
            None \<Rightarrow> None
          | Some c \<Rightarrow>
              Some (scale_Matrix3d c
                (minus_Matrix3d
                   (times_transpose (scale_Vector3d 3 (relativePosition s')) (relativePosition s'))
                   (scale_Matrix3d (squaredNorm (relativePosition s')) identityMatrix))), s'))"

subsection \<open>The same evaluation in binary64 arithmetic\<close>

text \<open>
  The exact arithmetic above gives the value of the expression the source evaluates. What
  the processor computes is that expression with every operation rounded: an IEEE 754
  binary64 operation returns the exact result rounded to the nearest number with 53
  significant bits, a tie going to the even significand. \<open>round_binary64\<close> is this
  rounding, on an unbounded exponent range: it agrees with the format wherever the
  result is a normal number (no overflow, no subnormal). A binary64 number is modelled by
  the real number it denotes.
\<close>

definition roundTiesToEven :: "real \<Rightarrow> int" where
  "roundTiesToEven q =
     (let f = \<lfloor>q\<rfloor>
      in if q - of_int f < 1 / 2 then f
         else if 1 / 2 < q - of_int f then f + 1
         else if even f then f else f + 1)"

definition round_binary64 :: "real \<Rightarrow> real" where
  "round_binary64 x =
     (if x = 0 then 0
      else let e = \<lfloor>log 2 \<bar>x\<bar>\<rfloor> - 52
           in of_int (roundTiesToEven (x / 2 powr of_int e)) * 2 powr of_int e)"

definition plus_binary64 :: "real \<Rightarrow> real \<Rightarrow> real" where
  "plus_binary64 a b = round_binary64 (a + b)"

definition minus_binary64 :: "real \<Rightarrow> real \<Rightarrow> real" where
  "minus_binary64 a b = round_binary64 (a - b)"

definition times_binary64 :: "real \<Rightarrow> real \<Rightarrow> real" where
  "times_binary64 a b = round_binary64 (a * b)"

definition divide_binary64 :: "real \<Rightarrow> real \<Rightarrow> real option" where
  "divide_binary64 a b = (if b = 0 then None else Some (round_binary64 (a / b)))"

definition sqrt_binary64 :: "real \<Rightarrow> real" where
  "sqrt_binary64 a = round_binary64 (sqrt a)"

text \<open>
  Modelled from the spec: \<^verbatim>\<open>mathematics::raiseToIntegerPower\<close> once more, the
  repeated multiplication of the spec with every product rounded.
\<close>

fun raiseToIntegerPower_binary64 :: "real \<Rightarrow> nat \<Rightarrow> real" where
  "raiseToIntegerPower_binary64 baseValue 0 = 1"
| "raiseToIntegerPower_binary64 baseValue (Suc integerPower) =
     times_binary64 baseValue (raiseToIntegerPower_binary64 baseValue integerPower)"

text \<open>
  The operators of the linear algebra library, coefficient by coefficient as before, each
  coefficient computed by the rounded operations, one rounding for each operation; the
  squared norm and the trace add in the order of the index.
\<close>

fun minus_Vector3d_binary64 :: "Vector3d \<Rightarrow> Vector3d \<Rightarrow> Vector3d" where
  "minus_Vector3d_binary64 (a1, a2, a3) (b1, b2, b3) =
     (minus_binary64 a1 b1, minus_binary64 a2 b2, minus_binary64 a3 b3)"

fun squaredNorm_binary64 :: "Vector3d \<Rightarrow> real" where
  "squaredNorm_binary64 (a1, a2, a3) =
     plus_binary64 (plus_binary64 (times_binary64 a1 a1) (times_binary64 a2 a2))
       (times_binary64 a3 a3)"

definition norm_Vector3d_binary64 :: "Vector3d \<Rightarrow> real" where
  "norm_Vector3d_binary64 a = sqrt_binary64 (squaredNorm_binary64 a)"

fun scale_Vector3d_binary64 :: "real \<Rightarrow> Vector3d \<Rightarrow> Vector3d" where
  "scale_Vector3d_binary64 c (a1, a2, a3) =
     (times_binary64 c a1, times_binary64 c a2, times_binary64 c a3)"

fun times_transpose_binary64 :: "Vector3d \<Rightarrow> Vector3d \<Rightarrow> Matrix3d" where
  "times_transpose_binary64 (a1, a2, a3) (b1, b2, b3) =
     ((times_binary64 a1 b1, times_binary64 a1 b2, times_binary64 a1 b3),
      (times_binary64 a2 b1, times_binary64 a2 b2, times_binary64 a2 b3),
      (times_binary64 a3 b1, times_binary64 a3 b2, times_binary64 a3 b3))"

fun scale_Matrix3d_binary64 :: "real \<Rightarrow> Matrix3d \<Rightarrow> Matrix3d" where
  "scale_Matrix3d_binary64 c (r1, r2, r3) =
     (scale_Vector3d_binary64 c r1, scale_Vector3d_binary64 c r2, scale_Vector3d_binary64 c r3)"

fun minus_Matrix3d_binary64 :: "Matrix3d \<Rightarrow> Matrix3d \<Rightarrow> Matrix3d" where
  "minus_Matrix3d_binary64 (r1, r2, r3) (q1, q2, q3) =
     (minus_Vector3d_binary64 r1 q1, minus_Vector3d_binary64 r2 q2,
      minus_Vector3d_binary64 r3 q3)"

fun trace_Matrix3d_binary64 :: "Matrix3d \<Rightarrow> real" where
  "trace_Matrix3d_binary64 ((m11, m12, m13), (m21, m22, m23), (m31, m32, m33)) =
     plus_binary64 (plus_binary64 m11 m22) m33"

text \<open>
  \<^verbatim>\<open>getGradientTensorOfPotential\<close> as the processor evaluates it: the
  definition of \<open>getGradientTensorOfPotential\<close> with each operation replaced by its
  rounded counterpart.
\<close>

definition getGradientTensorOfPotential_binary64 ::
  "SphericalHarmonicsGravityField \<Rightarrow> Vector3d \<Rightarrow> Matrix3d option \<times> SphericalHarmonicsGravityField" where
  "getGradientTensorOfPotential_binary64 s position =
     (let identityMatrix = setIdentity;
          s' = s\<lparr> relativePosition := minus_Vector3d_binary64 position (positionOfOrigin s) \<rparr>
      in (case divide_binary64 (gravitationalParameter s')
                 (raiseToIntegerPower_binary64 (norm_Vector3d_binary64 (relativePosition s')) 5) of
            None \<Rightarrow> None
          | Some c \<Rightarrow>
              Some (scale_Matrix3d_binary64 c
                (minus_Matrix3d_binary64
                   (times_transpose_binary64
                      (scale_Vector3d_binary64 3 (relativePosition s')) (relativePosition s'))
                   (scale_Matrix3d_binary64 (squaredNorm_binary64 (relativePosition s'))
                      identityMatrix))), s'))"

section \<open>Facts about the arithmetic\<close>

lemma raiseToIntegerPower_power: "raiseToIntegerPower b n = b ^ n"
  by (induction n) simp_all

lemma squaredNorm_nonneg: "0 \<le> squaredNorm a"
  by (cases a) simp

lemma squaredNorm_eq_0_iff: "squaredNorm a = 0 \<longleftrightarrow> a = (0, 0, 0)"
proof (cases a)
  case (fields a1 a2 a3)
  have "a1 * a1 + a2 * a2 + a3 * a3 = 0 \<longleftrightarrow> a1 = 0 \<and> a2 = 0 \<and> a3 = 0"
    by (metis add_nonneg_eq_0_iff mult_eq_0_iff zero_le_square add_nonneg_nonneg add.right_neutral)
  with fields show ?thesis by simp
qed

lemma norm_Vector3d_nonneg: "0 \<le> norm_Vector3d a"
  by (simp add: norm_Vector3d_def squaredNorm_nonneg)

lemma norm_Vector3d_eq_0_iff: "norm_Vector3d a = 0 \<longleftrightarrow> a = (0, 0, 0)"
  by (simp add: norm_Vector3d_def squaredNorm_eq_0_iff)

lemma norm_Vector3d_square: "(norm_Vector3d a)\<^sup>2 = squaredNorm a"
  by (simp add: norm_Vector3d_def squaredNorm_nonneg)

lemma norm_Vector3d_pos: "a \<noteq> (0, 0, 0) \<Longrightarrow> 0 < norm_Vector3d a"
  using norm_Vector3d_nonneg [of a] norm_Vector3d_eq_0_iff [of a] by simp

lemma norm_Vector3d_scale: "norm_Vector3d (scale_Vector3d c a) = \<bar>c\<bar> * norm_Vector3d a"
proof -
  have "squaredNorm (scale_Vector3d c a) = c\<^sup>2 * squaredNorm a"
    by (cases a) (simp add: power2_eq_square algebra_simps)
  then show ?thesis
    by (simp add: norm_Vector3d_def real_sqrt_mult)
qed

lemma transpose_scale_Matrix3d:
  "transpose_Matrix3d (scale_Matrix3d c m) = scale_Matrix3d c (transpose_Matrix3d m)"
  by (cases m rule: transpose_Matrix3d.cases) simp

lemma trace_scale_Matrix3d: "trace_Matrix3d (scale_Matrix3d c m) = c * trace_Matrix3d m"
  by (cases m rule: trace_Matrix3d.cases) (simp add: algebra_simps)

lemma tensor_kernel_symmetric:
  "transpose_Matrix3d
     (minus_Matrix3d (times_transpose (scale_Vector3d 3 r) r)
        (scale_Matrix3d (squaredNorm r) setIdentity)) =
   minus_Matrix3d (times_transpose (scale_Vector3d 3 r) r)
     (scale_Matrix3d (squaredNorm r) setIdentity)"
  by (cases r) (simp add: setIdentity_def algebra_simps)

lemma tensor_kernel_traceless:
  "trace_Matrix3d
     (minus_Matrix3d (times_transpose (scale_Vector3d 3 r) r)
        (scale_Matrix3d (squaredNorm r) setIdentity)) = 0"
  by (cases r) (simp add: setIdentity_def algebra_simps)

section \<open>Facts about the rounding\<close>

lemma roundTiesToEven_nearest:
  assumes "\<bar>q - of_int m\<bar> < 1 / 2"
  shows "roundTiesToEven q = m"
proof (cases "of_int m \<le> q")
  case True
  then have "\<lfloor>q\<rfloor> = m"
    using assms by linarith
  then show ?thesis
    using assms True by (simp add: roundTiesToEven_def)
next
  case False
  then have f: "\<lfloor>q\<rfloor> = m - 1"
    using assms by linarith
  have "1 / 2 < q - of_int (m - 1)"
    using assms False by simp
  then show ?thesis
    using f by (simp add: roundTiesToEven_def Let_def)
qed

lemma floor_log2_eq:
  fixes y :: real and p :: nat
  assumes "2 ^ p \<le> y" and "y < 2 ^ Suc p"
  shows "\<lfloor>log 2 y\<rfloor> = int p"
proof -
  have pos: "0 < y"
    using assms(1) by (rule less_le_trans [rotated]) simp
  have l: "log 2 ((2 :: real) ^ n) = of_nat n" for n
    by (simp add: log_nat_power)
  have "log 2 (2 ^ p) \<le> log 2 y"
    using assms(1) pos by (subst log_le_cancel_iff) simp_all
  then have a: "of_nat p \<le> log 2 y"
    by (simp only: l)
  have "log 2 y < log 2 (2 ^ Suc p)"
    using assms(2) pos by (subst log_less_cancel_iff) simp_all
  then have b: "log 2 y < of_nat (Suc p)"
    by (simp only: l)
  from a b show ?thesis
    by (simp add: floor_eq_iff)
qed

text \<open>
  The rounding of \<open>x\<close> is \<open>m / 2 ^ k\<close> when \<open>x * 2 ^ k\<close> lies in the binade
  from \<open>2 ^ 52\<close> to \<open>2 ^ 53\<close> and less than a half away from the integer \<open>m\<close>.
\<close>

lemma round_binary64_nearest:
  fixes x :: real and m :: int and k :: nat
  assumes lo: "2 ^ 52 \<le> \<bar>x\<bar> * 2 ^ k" and hi: "\<bar>x\<bar> * 2 ^ k < 2 ^ 53"
    and below: "of_int m - 1 / 2 < x * 2 ^ k" and above: "x * 2 ^ k < of_int m + 1 / 2"
  shows "round_binary64 x = of_int m / 2 ^ k"
proof -
  have near: "\<bar>x * 2 ^ k - of_int m\<bar> < 1 / 2"
    using below above unfolding abs_less_iff by linarith
  have x0: "x \<noteq> 0"
    using lo by auto
  have hi': "\<bar>x\<bar> * 2 ^ k < 2 ^ Suc 52"
    using hi by simp
  have "\<lfloor>log 2 (\<bar>x\<bar> * 2 ^ k)\<rfloor> = int 52"
    using lo hi' by (rule floor_log2_eq)
  moreover have "log 2 (\<bar>x\<bar> * 2 ^ k) = log 2 \<bar>x\<bar> + of_nat k"
    using x0 by (simp add: log_mult log_nat_power)
  ultimately have "\<lfloor>log 2 \<bar>x\<bar>\<rfloor> + int k = 52"
    by simp
  then have e: "\<lfloor>log 2 \<bar>x\<bar>\<rfloor> - 52 = - int k"
    by simp
  have p: "2 powr of_int (- int k) = 1 / (2 :: real) ^ k"
    by (simp add: powr_minus powr_realpow inverse_eq_divide)
  have "round_binary64 x =
      of_int (roundTiesToEven (x / 2 powr of_int (- int k))) * 2 powr of_int (- int k)"
    using x0 by (simp only: round_binary64_def e Let_def if_False)
  also have "\<dots> = of_int (roundTiesToEven (x * 2 ^ k)) / 2 ^ k"
    by (simp only: p) simp
  finally show ?thesis
    by (simp only: roundTiesToEven_nearest [OF near])
qed

text \<open>
  The tie: when \<open>x * 2 ^ k\<close> lies in that binade, exactly half way between the
  integers \<open>f\<close> and \<open>f + 1\<close>, the rounding takes the even one of the two.
\<close>

lemma roundTiesToEven_tie:
  assumes "q = of_int f + 1 / 2"
  shows "roundTiesToEven q = (if even f then f else f + 1)"
proof -
  have "\<lfloor>q\<rfloor> = f"
    using assms by linarith
  then show ?thesis
    using assms by (simp add: roundTiesToEven_def)
qed

lemma round_binary64_tie:
  fixes x :: real and f :: int and k :: nat
  assumes lo: "2 ^ 52 \<le> \<bar>x\<bar> * 2 ^ k" and hi: "\<bar>x\<bar> * 2 ^ k < 2 ^ 53"
    and tie: "x * 2 ^ k = of_int f + 1 / 2"
  shows "round_binary64 x = of_int (if even f then f else f + 1) / 2 ^ k"
proof -
  have x0: "x \<noteq> 0"
    using lo by auto
  have hi': "\<bar>x\<bar> * 2 ^ k < 2 ^ Suc 52"
    using hi by simp
  have "\<lfloor>log 2 (\<bar>x\<bar> * 2 ^ k)\<rfloor> = int 52"
    using lo hi' by (rule floor_log2_eq)
  moreover have "log 2 (\<bar>x\<bar> * 2 ^ k) = log 2 \<bar>x\<bar> + of_nat k"
    using x0 by (simp add: log_mult log_nat_power)
  ultimately have "\<lfloor>log 2 \<bar>x\<bar>\<rfloor> + int k = 52"
    by simp
  then have e: "\<lfloor>log 2 \<bar>x\<bar>\<rfloor> - 52 = - int k"
    by simp
  have p: "2 powr of_int (- int k) = 1 / (2 :: real) ^ k"
    by (simp add: powr_minus powr_realpow inverse_eq_divide)
  have "round_binary64 x =
      of_int (roundTiesToEven (x / 2 powr of_int (- int k))) * 2 powr of_int (- int k)"
    using x0 by (simp only: round_binary64_def e Let_def if_False)
  also have "\<dots> = of_int (roundTiesToEven (x * 2 ^ k)) / 2 ^ k"
    by (simp only: p) simp
  finally show ?thesis
    by (simp only: roundTiesToEven_tie [OF tie])
qed

lemma round_binary64_zero: "round_binary64 0 = 0"
  by (simp add: round_binary64_def)

lemma divide_binary64_Some:
  assumes "b \<noteq> 0" and "round_binary64 (a / b) = v"
  shows "divide_binary64 a b = Some v"
  using assms by (simp only: divide_binary64_def if_False)

lemma sqrt_between:
  fixes x :: real
  assumes "0 \<le> l" and "l\<^sup>2 < x" and "0 \<le> u" and "x < u\<^sup>2"
  shows "l < sqrt x \<and> sqrt x < u"
  using assms by (simp add: real_less_rsqrt real_less_lsqrt)

lemma raiseToIntegerPower_binary64_5:
  "raiseToIntegerPower_binary64 b 5 =
     times_binary64 b (times_binary64 b (times_binary64 b (times_binary64 b (times_binary64 b 1))))"
  by (simp add: eval_nat_numeral)

section \<open>The setters\<close>

text \<open>
  Claim C7. For every object and every argument, each of \<open>setReferenceRadius\<close>,
  \<open>setDegreeOfExpansion\<close> and \<open>setOrderOfExpansion\<close> stores its argument in
  its own field, whatever the argument is (a negative radius is stored like any other),
  and every other field of the object, the scratch relative position included, keeps its
  value.
\<close>

theorem setters_change_only_their_field:
  "referenceRadius (setReferenceRadius s r) = r \<and>
   referenceRadius (setReferenceRadius s (- 1)) = - 1 \<and>
   gravitationalParameter (setReferenceRadius s r) = gravitationalParameter s \<and>
   positionOfOrigin (setReferenceRadius s r) = positionOfOrigin s \<and>
   relativePosition (setReferenceRadius s r) = relativePosition s \<and>
   degreeOfExpansion (setReferenceRadius s r) = degreeOfExpansion s \<and>
   orderOfExpansion (setReferenceRadius s r) = orderOfExpansion s \<and>
   j2SphericalHarmonicsGravityFieldCoefficient (setReferenceRadius s r) =
     j2SphericalHarmonicsGravityFieldCoefficient s \<and>
   j3SphericalHarmonicsGravityFieldCoefficient (setReferenceRadius s r) =
     j3SphericalHarmonicsGravityFieldCoefficient s \<and>
   j4SphericalHarmonicsGravityFieldCoefficient (setReferenceRadius s r) =
     j4SphericalHarmonicsGravityFieldCoefficient s \<and>
   degreeOfExpansion (setDegreeOfExpansion s d) = d \<and>
   gravitationalParameter (setDegreeOfExpansion s d) = gravitationalParameter s \<and>
   positionOfOrigin (setDegreeOfExpansion s d) = positionOfOrigin s \<and>
   relativePosition (setDegreeOfExpansion s d) = relativePosition s \<and>
   orderOfExpansion (setDegreeOfExpansion s d) = orderOfExpansion s \<and>
   referenceRadius (setDegreeOfExpansion s d) = referenceRadius s \<and>
   j2SphericalHarmonicsGravityFieldCoefficient (setDegreeOfExpansion s d) =
     j2SphericalHarmonicsGravityFieldCoefficient s \<and>
   j3SphericalHarmonicsGravityFieldCoefficient (setDegreeOfExpansion s d) =
     j3SphericalHarmonicsGravityFieldCoefficient s \<and>
   j4SphericalHarmonicsGravityFieldCoefficient (setDegreeOfExpansion s d) =
     j4SphericalHarmonicsGravityFieldCoefficient s \<and>
   orderOfExpansion (setOrderOfExpansion s k) = k \<and>
   gravitationalParameter (setOrderOfExpansion s k) = gravitationalParameter s \<and>
   positionOfOrigin (setOrderOfExpansion s k) = positionOfOrigin s \<and>
   relativePosition (setOrderOfExpansion s k) = relativePosition s \<and>
   degreeOfExpansion (setOrderOfExpansion s k) = degreeOfExpansion s \<and>
   referenceRadius (setOrderOfExpansion s k) = referenceRadius s \<and>
   j2SphericalHarmonicsGravityFieldCoefficient (setOrderOfExpansion s k) =
     j2SphericalHarmonicsGravityFieldCoefficient s \<and>
   j3SphericalHarmonicsGravityFieldCoefficient (setOrderOfExpansion s k) =
     j3SphericalHarmonicsGravityFieldCoefficient s \<and>
   j4SphericalHarmonicsGravityFieldCoefficient (setOrderOfExpansion s k) =
     j4SphericalHarmonicsGravityFieldCoefficient s"
  by (simp add: setReferenceRadius_def setDegreeOfExpansion_def setOrderOfExpansion_def)

section \<open>Configuration from a predefined body\<close>

text \<open>
  Claim C5. For every object, a call of
  \<open>setPredefinedSphericalHarmonicsGravityFieldSettings\<close> with a body that is neither
  the WGS-72 nor the WGS-84 Earth returns the object as it was, so the gravitational
  parameter, the reference radius, J2, J3, J4, the degree, the order and the position of
  the origin keep their values, and writes one line to the error stream, saying that the
  desired predefined field does not exist.
\<close>

theorem unknown_body_keeps_state_and_reports:
  assumes "body \<noteq> earthWorldGeodeticSystem72" and "body \<noteq> earthWorldGeodeticSystem84"
  shows "snd (setPredefinedSphericalHarmonicsGravityFieldSettings s body) = s \<and>
         persistentFields (snd (setPredefinedSphericalHarmonicsGravityFieldSettings s body)) =
           persistentFields s \<and>
         fst (setPredefinedSphericalHarmonicsGravityFieldSettings s body) =
           [''Desired predefined spherical harmonics gravity field does not exist.'']"
  using assms by (cases body) simp_all

theorem unknown_body_keeps_state_and_reports_witness:
  "otherBody 7 \<noteq> earthWorldGeodeticSystem72 \<and> otherBody 7 \<noteq> earthWorldGeodeticSystem84 \<and>
   snd (setPredefinedSphericalHarmonicsGravityFieldSettings
          (setReferenceRadius
             (defaultConstructor
                \<lparr> gravitationalParameter = 8, positionOfOrigin = (1, 2, 3),
                  relativePosition = (0, 0, 0) \<rparr>) 6378137)
          (otherBody 7)) =
     setReferenceRadius
       (defaultConstructor
          \<lparr> gravitationalParameter = 8, positionOfOrigin = (1, 2, 3),
            relativePosition = (0, 0, 0) \<rparr>) 6378137 \<and>
   fst (setPredefinedSphericalHarmonicsGravityFieldSettings
          (setReferenceRadius
             (defaultConstructor
                \<lparr> gravitationalParameter = 8, positionOfOrigin = (1, 2, 3),
                  relativePosition = (0, 0, 0) \<rparr>) 6378137)
          (otherBody 7)) =
     [''Desired predefined spherical harmonics gravity field does not exist.'']"
  using unknown_body_keeps_state_and_reports
    [of "otherBody 7"
        "setReferenceRadius
           (defaultConstructor
              \<lparr> gravitationalParameter = 8, positionOfOrigin = (1, 2, 3),
                relativePosition = (0, 0, 0) \<rparr>) 6378137"]
  by simp

text \<open>
  Claim C6. Whatever the object held before, the call with the WGS-84 Earth leaves the
  gravitational parameter 398600.4418e9, the reference radius 6378.137e3, J2
  0.00108262998905, J3 -0.00000253215306 and J4 -0.00000161098761 in it, so that
  \<open>getReferenceRadius\<close> then returns 6378137; the call with the WGS-72 Earth leaves
  398600.8e9, 6378.135e3, 0.001082616, -0.00000253881 and -0.00000165597. Neither call
  writes to the error stream.
\<close>

theorem predefined_earth_settings:
  "gravitationalParameter
     (snd (setPredefinedSphericalHarmonicsGravityFieldSettings s earthWorldGeodeticSystem84)) =
     398600.4418 * 10 ^ 9 \<and>
   referenceRadius
     (snd (setPredefinedSphericalHarmonicsGravityFieldSettings s earthWorldGeodeticSystem84)) =
     6378.137 * 10 ^ 3 \<and>
   j2SphericalHarmonicsGravityFieldCoefficient
     (snd (setPredefinedSphericalHarmonicsGravityFieldSettings s earthWorldGeodeticSystem84)) =
     0.00108262998905 \<and>
   j3SphericalHarmonicsGravityFieldCoefficient
     (snd (setPredefinedSphericalHarmonicsGravityFieldSettings s earthWorldGeodeticSystem84)) =
     - 0.00000253215306 \<and>
   j4SphericalHarmonicsGravityFieldCoefficient
     (snd (setPredefinedSphericalHarmonicsGravityFieldSettings s earthWorldGeodeticSystem84)) =
     - 0.00000161098761 \<and>
   getReferenceRadius
     (snd (setPredefinedSphericalHarmonicsGravityFieldSettings s earthWorldGeodeticSystem84)) =
     6378137 \<and>
   fst (setPredefinedSphericalHarmonicsGravityFieldSettings s earthWorldGeodeticSystem84) = [] \<and>
   gravitationalParameter
     (snd (setPredefinedSphericalHarmonicsGravityFieldSettings s earthWorldGeodeticSystem72)) =
     398600.8 * 10 ^ 9 \<and>
   referenceRadius
     (snd (setPredefinedSphericalHarmonicsGravityFieldSettings s earthWorldGeodeticSystem72)) =
     6378.135 * 10 ^ 3 \<and>
   j2SphericalHarmonicsGravityFieldCoefficient
     (snd (setPredefinedSphericalHarmonicsGravityFieldSettings s earthWorldGeodeticSystem72)) =
     0.001082616 \<and>
   j3SphericalHarmonicsGravityFieldCoefficient
     (snd (setPredefinedSphericalHarmonicsGravityFieldSettings s earthWorldGeodeticSystem72)) =
     - 0.00000253881 \<and>
   j4SphericalHarmonicsGravityFieldCoefficient
     (snd (setPredefinedSphericalHarmonicsGravityFieldSettings s earthWorldGeodeticSystem72)) =
     - 0.00000165597 \<and>
   getReferenceRadius
     (snd (setPredefinedSphericalHarmonicsGravityFieldSettings s earthWorldGeodeticSystem72)) =
     6378135 \<and>
   fst (setPredefinedSphericalHarmonicsGravityFieldSettings s earthWorldGeodeticSystem72) = []"
  by (simp add: getReferenceRadius_def)

section \<open>Evaluation leaves the configuration alone\<close>

text \<open>
  Claim C8. For every object and every queried position, a call of \<open>getPotential\<close>,
  \<open>getGradientOfPotential\<close> or \<open>getGradientTensorOfPotential\<close> leaves the
  gravitational parameter, the reference radius, the degree, the order, J2, J3, J4 and
  the position of the origin as they were: the only field the call writes is the scratch
  relative position, which it sets to the queried position minus the position of the
  origin.
\<close>

theorem evaluation_writes_only_relativePosition:
  "persistentFields (snd (getPotential s position)) = persistentFields s \<and>
   persistentFields (snd (getGradientOfPotential s position)) = persistentFields s \<and>
   persistentFields (snd (getGradientTensorOfPotential s position)) = persistentFields s \<and>
   snd (getPotential s position) =
     s\<lparr> relativePosition := minus_Vector3d position (positionOfOrigin s) \<rparr> \<and>
   snd (getGradientOfPotential s position) =
     s\<lparr> relativePosition := minus_Vector3d position (positionOfOrigin s) \<rparr> \<and>
   snd (getGradientTensorOfPotential s position) =
     s\<lparr> relativePosition := minus_Vector3d position (positionOfOrigin s) \<rparr>"
  by (simp add: getPotential_def getGradientOfPotential_def getGradientTensorOfPotential_def
      persistentFields_def Let_def)

section \<open>The three evaluations\<close>

text \<open>
  Claim C1. For every object, with its origin at \<open>(o1, o2, o3)\<close>, and every queried
  position \<open>(p1, p2, p3)\<close> other than the origin, \<open>getPotential\<close> returns the
  gravitational parameter divided by the Euclidean norm of the relative position, the
  square root of \<open>(p1 - o1)\<^sup>2 + (p2 - o2)\<^sup>2 + (p3 - o3)\<^sup>2\<close>. The degree,
  the order, the reference radius and the coefficients J2, J3, J4 have no part in it:
  replacing all six by any other values gives the same result.
\<close>

theorem getPotential_point_mass:
  assumes "positionOfOrigin s = (o1, o2, o3)"
    and "(p1 - o1, p2 - o2, p3 - o3) \<noteq> (0, 0, 0)"
  shows "fst (getPotential s (p1, p2, p3)) =
           Some (gravitationalParameter s /
                 sqrt ((p1 - o1)\<^sup>2 + (p2 - o2)\<^sup>2 + (p3 - o3)\<^sup>2)) \<and>
         fst (getPotential
                (s\<lparr> degreeOfExpansion := d, orderOfExpansion := k, referenceRadius := rr,
                    j2SphericalHarmonicsGravityFieldCoefficient := c2,
                    j3SphericalHarmonicsGravityFieldCoefficient := c3,
                    j4SphericalHarmonicsGravityFieldCoefficient := c4 \<rparr>) (p1, p2, p3)) =
           fst (getPotential s (p1, p2, p3))"
proof -
  let ?r = "(p1 - o1, p2 - o2, p3 - o3)"
  have "norm_Vector3d ?r \<noteq> 0"
    using assms(2) norm_Vector3d_eq_0_iff [of ?r] by simp
  moreover have "norm_Vector3d ?r = sqrt ((p1 - o1)\<^sup>2 + (p2 - o2)\<^sup>2 + (p3 - o3)\<^sup>2)"
    by (simp add: norm_Vector3d_def power2_eq_square)
  ultimately have "fst (getPotential s (p1, p2, p3)) =
      Some (gravitationalParameter s / sqrt ((p1 - o1)\<^sup>2 + (p2 - o2)\<^sup>2 + (p3 - o3)\<^sup>2))"
    using assms(1) by (simp add: getPotential_def divide_double_def Let_def)
  moreover have "fst (getPotential
                (s\<lparr> degreeOfExpansion := d, orderOfExpansion := k, referenceRadius := rr,
                    j2SphericalHarmonicsGravityFieldCoefficient := c2,
                    j3SphericalHarmonicsGravityFieldCoefficient := c3,
                    j4SphericalHarmonicsGravityFieldCoefficient := c4 \<rparr>) (p1, p2, p3)) =
           fst (getPotential s (p1, p2, p3))"
    by (simp add: getPotential_def Let_def)
  ultimately show ?thesis by simp
qed

theorem getPotential_point_mass_witness:
  "positionOfOrigin
     (defaultConstructor
        \<lparr> gravitationalParameter = 8, positionOfOrigin = (1, 2, 3),
          relativePosition = (0, 0, 0) \<rparr>) = (1, 2, 3) \<and>
   (3 - 1, 2 - 2, 3 - 3) \<noteq> (0 :: real, 0 :: real, 0 :: real) \<and>
   fst (getPotential
          (defaultConstructor
             \<lparr> gravitationalParameter = 8, positionOfOrigin = (1, 2, 3),
               relativePosition = (0, 0, 0) \<rparr>) (3, 2, 3)) = Some 4 \<and>
   fst (getPotential
          (defaultConstructor
             \<lparr> gravitationalParameter = 8, positionOfOrigin = (1, 2, 3),
               relativePosition = (0, 0, 0) \<rparr>
           \<lparr> degreeOfExpansion := 4, orderOfExpansion := 2, referenceRadius := 6378137,
             j2SphericalHarmonicsGravityFieldCoefficient := 1,
             j3SphericalHarmonicsGravityFieldCoefficient := 2,
             j4SphericalHarmonicsGravityFieldCoefficient := 3 \<rparr>) (3, 2, 3)) = Some 4"
  using getPotential_point_mass
    [where s = "defaultConstructor
                  \<lparr> gravitationalParameter = 8, positionOfOrigin = (1, 2, 3),
                    relativePosition = (0, 0, 0) \<rparr>"
       and ?o1.0 = 1 and ?o2.0 = 2 and ?o3.0 = 3 and ?p1.0 = 3 and ?p2.0 = 2 and ?p3.0 = 3
       and d = 4 and k = 2 and rr = 6378137 and ?c2.0 = 1 and ?c3.0 = 2 and ?c4.0 = 3]
  by (simp add: defaultConstructor_def)

text \<open>
  Claim C2. For every object and every queried position whose relative position
  \<open>r\<close> (the position minus the position of the origin) is not the zero vector,
  \<open>getGradientOfPotential\<close> returns \<open>r\<close> scaled by minus the gravitational
  parameter over the cube of the norm of \<open>r\<close>. When the gravitational parameter is
  positive, that factor is negative, so the vector points against \<open>r\<close>, from the
  queried position to the origin, and its norm is the gravitational parameter over the
  square of the norm of \<open>r\<close>.
\<close>

theorem getGradientOfPotential_point_mass:
  assumes "r = minus_Vector3d position (positionOfOrigin s)" and "r \<noteq> (0, 0, 0)"
  shows "fst (getGradientOfPotential s position) =
           Some (scale_Vector3d (- (gravitationalParameter s / norm_Vector3d r ^ 3)) r) \<and>
         (0 < gravitationalParameter s \<longrightarrow>
            - (gravitationalParameter s / norm_Vector3d r ^ 3) < 0 \<and>
            norm_Vector3d
              (scale_Vector3d (- (gravitationalParameter s / norm_Vector3d r ^ 3)) r) =
              gravitationalParameter s / (norm_Vector3d r)\<^sup>2)"
proof -
  have n: "0 < norm_Vector3d r"
    using assms(2) by (rule norm_Vector3d_pos)
  obtain x y z where r: "r = (x, y, z)"
    by (cases r)
  have "fst (getGradientOfPotential s position) =
      Some (scale_Vector3d (- (gravitationalParameter s / norm_Vector3d r ^ 3)) r)"
    using n assms(1) [symmetric]
    by (simp add: getGradientOfPotential_def Let_def raiseToIntegerPower_power r)
  moreover have "- (gravitationalParameter s / norm_Vector3d r ^ 3) < 0 \<and>
      norm_Vector3d (scale_Vector3d (- (gravitationalParameter s / norm_Vector3d r ^ 3)) r) =
        gravitationalParameter s / (norm_Vector3d r)\<^sup>2"
    if mu: "0 < gravitationalParameter s"
  proof -
    have k: "0 < gravitationalParameter s / norm_Vector3d r ^ 3"
      using mu n by simp
    have "norm_Vector3d (scale_Vector3d (- (gravitationalParameter s / norm_Vector3d r ^ 3)) r) =
        gravitationalParameter s / norm_Vector3d r ^ 3 * norm_Vector3d r"
      using k by (simp only: norm_Vector3d_scale abs_minus_cancel abs_of_pos)
    also have "\<dots> = gravitationalParameter s / (norm_Vector3d r)\<^sup>2"
      using n by (simp add: power3_eq_cube power2_eq_square)
    finally show ?thesis
      using k by simp
  qed
  ultimately show ?thesis by blast
qed

theorem getGradientOfPotential_point_mass_witness:
  "(2, 0, 0) =
     minus_Vector3d (3, 2, 3)
       (positionOfOrigin
          (defaultConstructor
             \<lparr> gravitationalParameter = 8, positionOfOrigin = (1, 2, 3),
               relativePosition = (0, 0, 0) \<rparr>)) \<and>
   (2, 0, 0) \<noteq> (0 :: real, 0 :: real, 0 :: real) \<and>
   0 < gravitationalParameter
         (defaultConstructor
            \<lparr> gravitationalParameter = 8, positionOfOrigin = (1, 2, 3),
              relativePosition = (0, 0, 0) \<rparr>) \<and>
   fst (getGradientOfPotential
          (defaultConstructor
             \<lparr> gravitationalParameter = 8, positionOfOrigin = (1, 2, 3),
               relativePosition = (0, 0, 0) \<rparr>) (3, 2, 3)) = Some (- 2, 0, 0) \<and>
   norm_Vector3d (- 2, 0, 0) = 8 / 2\<^sup>2"
  using getGradientOfPotential_point_mass
    [of "(2, 0, 0)" "(3, 2, 3)"
        "defaultConstructor
           \<lparr> gravitationalParameter = 8, positionOfOrigin = (1, 2, 3),
             relativePosition = (0, 0, 0) \<rparr>"]
  by (simp add: defaultConstructor_def norm_Vector3d_def)

text \<open>
  Claim C3. For every object and every queried position whose relative position
  \<open>r\<close> is not the zero vector, \<open>getGradientTensorOfPotential\<close> returns the
  gravitational parameter over the fifth power of the norm of \<open>r\<close>, times the
  difference of three times \<open>r\<close> times its transpose and the squared norm of
  \<open>r\<close> times the 3 by 3 identity matrix.
\<close>

theorem getGradientTensorOfPotential_point_mass:
  assumes "r = minus_Vector3d position (positionOfOrigin s)" and "r \<noteq> (0, 0, 0)"
  shows "fst (getGradientTensorOfPotential s position) =
           Some (scale_Matrix3d (gravitationalParameter s / norm_Vector3d r ^ 5)
                   (minus_Matrix3d
                      (scale_Matrix3d 3 (times_transpose r r))
                      (scale_Matrix3d ((norm_Vector3d r)\<^sup>2)
                         ((1, 0, 0), (0, 1, 0), (0, 0, 1)))))"
proof -
  have n: "norm_Vector3d r \<noteq> 0"
    using assms(2) norm_Vector3d_eq_0_iff [of r] by simp
  have t: "times_transpose (scale_Vector3d 3 r) r = scale_Matrix3d 3 (times_transpose r r)"
    by (cases r) simp
  show ?thesis
    using n assms(1) [symmetric]
    by (simp add: getGradientTensorOfPotential_def Let_def divide_double_def
        raiseToIntegerPower_power norm_Vector3d_square setIdentity_def t)
qed

theorem getGradientTensorOfPotential_point_mass_witness:
  "(2, 0, 0) =
     minus_Vector3d (3, 2, 3)
       (positionOfOrigin
          (defaultConstructor
             \<lparr> gravitationalParameter = 8, positionOfOrigin = (1, 2, 3),
               relativePosition = (0, 0, 0) \<rparr>)) \<and>
   (2, 0, 0) \<noteq> (0 :: real, 0 :: real, 0 :: real) \<and>
   fst (getGradientTensorOfPotential
          (defaultConstructor
             \<lparr> gravitationalParameter = 8, positionOfOrigin = (1, 2, 3),
               relativePosition = (0, 0, 0) \<rparr>) (3, 2, 3)) =
     Some ((2, 0, 0), (0, - 1, 0), (0, 0, - 1))"
  using getGradientTensorOfPotential_point_mass
    [of "(2, 0, 0)" "(3, 2, 3)"
        "defaultConstructor
           \<lparr> gravitationalParameter = 8, positionOfOrigin = (1, 2, 3),
             relativePosition = (0, 0, 0) \<rparr>"]
  by (simp add: defaultConstructor_def norm_Vector3d_def)

text \<open>
  Claim C4 has the returned matrix equal to its transpose, with a trace that is exactly
  zero, at every nonzero relative position. That is true of the exact value of the
  expression, as shown further down, and not of the matrix the processor computes. The
  two lemmas that follow evaluate \<open>getGradientTensorOfPotential_binary64\<close>, one
  operation after the other, at two inputs. The first has the gravitational parameter 8,
  the origin (1, 2, 3) and the position (3, 5, 7): the relative position (2, 3, 4) and
  every product and difference of its coordinates are small integers, so that only the
  square root of 29, its fifth power, the quotient and the last scaling round. The
  second has the gravitational parameter 1, the origin (0, 0, 0) and the position whose
  coordinates are the binary64 numbers nearest to 0.1, 0.2 and 0.3. Each lemma also gives
  the trace added up in binary64, as \<^verbatim>\<open>trace()\<close> of the library does.
\<close>

lemma tensor_binary64_at_integer_position:
  "fst (getGradientTensorOfPotential_binary64
        (defaultConstructor
          \<lparr> gravitationalParameter = 8, positionOfOrigin = (1, 2, 3),
            relativePosition = (0, 0, 0) \<rparr>)
        (3, 5, 7)) =
     Some ((- (33809885253071 / 1125899906842624), 4582233860180917 / 144115188075855872, 6109645146907889 / 144115188075855872),
           (4582233860180917 / 144115188075855872, - (8146193529210519 / 2305843009213693952), 4582233860180917 / 72057594037927936),
           (6109645146907889 / 144115188075855872, 4582233860180917 / 72057594037927936, 2418401203984373 / 72057594037927936)) \<and>
   trace_Matrix3d_binary64
     ((- (33809885253071 / 1125899906842624), 4582233860180917 / 144115188075855872, 6109645146907889 / 144115188075855872),
      (4582233860180917 / 144115188075855872, - (8146193529210519 / 2305843009213693952), 4582233860180917 / 72057594037927936),
      (6109645146907889 / 144115188075855872, 4582233860180917 / 72057594037927936, 2418401203984373 / 72057594037927936)) =
     1 / 144115188075855872"
proof -
  have a01: "minus_binary64 3 1 = 2"
  proof -
    have "minus_binary64 3 1 = of_int 4503599627370496 / 2 ^ 51"
      unfolding minus_binary64_def by (rule round_binary64_nearest) simp_all
    then show ?thesis by simp
  qed
  have a02: "minus_binary64 5 2 = 3"
  proof -
    have "minus_binary64 5 2 = of_int 6755399441055744 / 2 ^ 51"
      unfolding minus_binary64_def by (rule round_binary64_nearest) simp_all
    then show ?thesis by simp
  qed
  have a03: "minus_binary64 7 3 = 4"
  proof -
    have "minus_binary64 7 3 = of_int 4503599627370496 / 2 ^ 50"
      unfolding minus_binary64_def by (rule round_binary64_nearest) simp_all
    then show ?thesis by simp
  qed
  have a04: "times_binary64 2 2 = 4"
  proof -
    have "times_binary64 2 2 = of_int 4503599627370496 / 2 ^ 50"
      unfolding times_binary64_def by (rule round_binary64_nearest) simp_all
    then show ?thesis by simp
  qed
  have a05: "times_binary64 3 3 = 9"
  proof -
    have "times_binary64 3 3 = of_int 5066549580791808 / 2 ^ 49"
      unfolding times_binary64_def by (rule round_binary64_nearest) simp_all
    then show ?thesis by simp
  qed
  have a06: "times_binary64 4 4 = 16"
  proof -
    have "times_binary64 4 4 = of_int 4503599627370496 / 2 ^ 48"
      unfolding times_binary64_def by (rule round_binary64_nearest) simp_all
    then show ?thesis by simp
  qed
  have a07: "plus_binary64 4 9 = 13"
  proof -
    have "plus_binary64 4 9 = of_int 7318349394477056 / 2 ^ 49"
      unfolding plus_binary64_def by (rule round_binary64_nearest) simp_all
    then show ?thesis by simp
  qed
  have a08: "plus_binary64 13 16 = 29"
  proof -
    have "plus_binary64 13 16 = of_int 8162774324609024 / 2 ^ 48"
      unfolding plus_binary64_def by (rule round_binary64_nearest) simp_all
    then show ?thesis by simp
  qed
  have a09: "sqrt_binary64 29 = 6063156554684915 / 1125899906842624"
  proof -
    have b: "12126313109369829 / 2251799813685248 < sqrt 29 \<and> sqrt 29 < 12126313109369831 / 2251799813685248"
      by (rule sqrt_between) (simp_all add: power2_eq_square)
    have "sqrt_binary64 29 = of_int 6063156554684915 / 2 ^ 50"
      unfolding sqrt_binary64_def by (rule round_binary64_nearest) (use b in simp_all)
    then show ?thesis by simp
  qed
  have a10: "times_binary64 (6063156554684915 / 1125899906842624) 1 = 6063156554684915 / 1125899906842624"
  proof -
    have "times_binary64 (6063156554684915 / 1125899906842624) 1 = of_int 6063156554684915 / 2 ^ 50"
      unfolding times_binary64_def by (rule round_binary64_nearest) simp_all
    then show ?thesis by simp
  qed
  have a11: "times_binary64 (6063156554684915 / 1125899906842624) (6063156554684915 / 1125899906842624) = 8162774324609023 / 281474976710656"
  proof -
    have "times_binary64 (6063156554684915 / 1125899906842624) (6063156554684915 / 1125899906842624) = of_int 8162774324609023 / 2 ^ 48"
      unfolding times_binary64_def by (rule round_binary64_nearest) simp_all
    then show ?thesis by simp
  qed
  have a12: "times_binary64 (6063156554684915 / 1125899906842624) (8162774324609023 / 281474976710656) = 1373683906920801 / 8796093022208"
  proof -
    have "times_binary64 (6063156554684915 / 1125899906842624) (8162774324609023 / 281474976710656) = of_int 5494735627683204 / 2 ^ 45"
      unfolding times_binary64_def by (rule round_binary64_nearest) simp_all
    then show ?thesis by simp
  qed
  have a13: "times_binary64 (6063156554684915 / 1125899906842624) (1373683906920801 / 8796093022208) = 7397514231676927 / 8796093022208"
  proof -
    have "times_binary64 (6063156554684915 / 1125899906842624) (1373683906920801 / 8796093022208) = of_int 7397514231676927 / 2 ^ 43"
      unfolding times_binary64_def by (rule round_binary64_nearest) simp_all
    then show ?thesis by simp
  qed
  have a14: "times_binary64 (6063156554684915 / 1125899906842624) (7397514231676927 / 8796093022208) = 4979604162587903 / 1099511627776"
  proof -
    have "times_binary64 (6063156554684915 / 1125899906842624) (7397514231676927 / 8796093022208) = of_int 4979604162587903 / 2 ^ 40"
      unfolding times_binary64_def by (rule round_binary64_nearest) simp_all
    then show ?thesis by simp
  qed
  have a15: "divide_binary64 8 (4979604162587903 / 1099511627776) = Some (8146193529210519 / 4611686018427387904)"
  proof (rule divide_binary64_Some)
    show "4979604162587903 / 1099511627776 \<noteq> (0 :: real)" by simp
    have "round_binary64 (8 / (4979604162587903 / 1099511627776)) = of_int 8146193529210519 / 2 ^ 62"
      by (rule round_binary64_nearest) simp_all
    then show "round_binary64 (8 / (4979604162587903 / 1099511627776)) = 8146193529210519 / 4611686018427387904" by simp
  qed
  have a16: "times_binary64 3 2 = 6"
  proof -
    have "times_binary64 3 2 = of_int 6755399441055744 / 2 ^ 50"
      unfolding times_binary64_def by (rule round_binary64_nearest) simp_all
    then show ?thesis by simp
  qed
  have a17: "times_binary64 3 4 = 12"
  proof -
    have "times_binary64 3 4 = of_int 6755399441055744 / 2 ^ 49"
      unfolding times_binary64_def by (rule round_binary64_nearest) simp_all
    then show ?thesis by simp
  qed
  have a18: "times_binary64 6 2 = 12"
  proof -
    have "times_binary64 6 2 = of_int 6755399441055744 / 2 ^ 49"
      unfolding times_binary64_def by (rule round_binary64_nearest) simp_all
    then show ?thesis by simp
  qed
  have a19: "times_binary64 6 3 = 18"
  proof -
    have "times_binary64 6 3 = of_int 5066549580791808 / 2 ^ 48"
      unfolding times_binary64_def by (rule round_binary64_nearest) simp_all
    then show ?thesis by simp
  qed
  have a20: "times_binary64 6 4 = 24"
  proof -
    have "times_binary64 6 4 = of_int 6755399441055744 / 2 ^ 48"
      unfolding times_binary64_def by (rule round_binary64_nearest) simp_all
    then show ?thesis by simp
  qed
  have a21: "times_binary64 9 2 = 18"
  proof -
    have "times_binary64 9 2 = of_int 5066549580791808 / 2 ^ 48"
      unfolding times_binary64_def by (rule round_binary64_nearest) simp_all
    then show ?thesis by simp
  qed
  have a22: "times_binary64 9 3 = 27"
  proof -
    have "times_binary64 9 3 = of_int 7599824371187712 / 2 ^ 48"
      unfolding times_binary64_def by (rule round_binary64_nearest) simp_all
    then show ?thesis by simp
  qed
  have a23: "times_binary64 9 4 = 36"
  proof -
    have "times_binary64 9 4 = of_int 5066549580791808 / 2 ^ 47"
      unfolding times_binary64_def by (rule round_binary64_nearest) simp_all
    then show ?thesis by simp
  qed
  have a24: "times_binary64 12 2 = 24"
  proof -
    have "times_binary64 12 2 = of_int 6755399441055744 / 2 ^ 48"
      unfolding times_binary64_def by (rule round_binary64_nearest) simp_all
    then show ?thesis by simp
  qed
  have a25: "times_binary64 12 3 = 36"
  proof -
    have "times_binary64 12 3 = of_int 5066549580791808 / 2 ^ 47"
      unfolding times_binary64_def by (rule round_binary64_nearest) simp_all
    then show ?thesis by simp
  qed
  have a26: "times_binary64 12 4 = 48"
  proof -
    have "times_binary64 12 4 = of_int 6755399441055744 / 2 ^ 47"
      unfolding times_binary64_def by (rule round_binary64_nearest) simp_all
    then show ?thesis by simp
  qed
  have a27: "times_binary64 29 1 = 29"
  proof -
    have "times_binary64 29 1 = of_int 8162774324609024 / 2 ^ 48"
      unfolding times_binary64_def by (rule round_binary64_nearest) simp_all
    then show ?thesis by simp
  qed
  have a28: "times_binary64 29 0 = 0"
    by (simp add: times_binary64_def round_binary64_zero)
  have a29: "minus_binary64 12 29 = - 17"
  proof -
    have "minus_binary64 12 29 = of_int (- 4785074604081152) / 2 ^ 48"
      unfolding minus_binary64_def by (rule round_binary64_nearest) simp_all
    then show ?thesis by simp
  qed
  have a30: "minus_binary64 18 0 = 18"
  proof -
    have "minus_binary64 18 0 = of_int 5066549580791808 / 2 ^ 48"
      unfolding minus_binary64_def by (rule round_binary64_nearest) simp_all
    then show ?thesis by simp
  qed
  have a31: "minus_binary64 24 0 = 24"
  proof -
    have "minus_binary64 24 0 = of_int 6755399441055744 / 2 ^ 48"
      unfolding minus_binary64_def by (rule round_binary64_nearest) simp_all
    then show ?thesis by simp
  qed
  have a32: "minus_binary64 27 29 = - 2"
  proof -
    have "minus_binary64 27 29 = of_int (- 4503599627370496) / 2 ^ 51"
      unfolding minus_binary64_def by (rule round_binary64_nearest) simp_all
    then show ?thesis by simp
  qed
  have a33: "minus_binary64 36 0 = 36"
  proof -
    have "minus_binary64 36 0 = of_int 5066549580791808 / 2 ^ 47"
      unfolding minus_binary64_def by (rule round_binary64_nearest) simp_all
    then show ?thesis by simp
  qed
  have a34: "minus_binary64 48 29 = 19"
  proof -
    have "minus_binary64 48 29 = of_int 5348024557502464 / 2 ^ 48"
      unfolding minus_binary64_def by (rule round_binary64_nearest) simp_all
    then show ?thesis by simp
  qed
  have a35: "times_binary64 (8146193529210519 / 4611686018427387904) (- 17) = - (33809885253071 / 1125899906842624)"
  proof -
    have "times_binary64 (8146193529210519 / 4611686018427387904) (- 17) = of_int (- 8655330624786176) / 2 ^ 58"
      unfolding times_binary64_def by (rule round_binary64_nearest) simp_all
    then show ?thesis by simp
  qed
  have a36: "times_binary64 (8146193529210519 / 4611686018427387904) 18 = 4582233860180917 / 144115188075855872"
  proof -
    have "times_binary64 (8146193529210519 / 4611686018427387904) 18 = of_int 4582233860180917 / 2 ^ 57"
      unfolding times_binary64_def by (rule round_binary64_nearest) simp_all
    then show ?thesis by simp
  qed
  have a37: "times_binary64 (8146193529210519 / 4611686018427387904) 24 = 6109645146907889 / 144115188075855872"
  proof -
    have "times_binary64 (8146193529210519 / 4611686018427387904) 24 = of_int 6109645146907889 / 2 ^ 57"
      unfolding times_binary64_def by (rule round_binary64_nearest) simp_all
    then show ?thesis by simp
  qed
  have a38: "times_binary64 (8146193529210519 / 4611686018427387904) (- 2) = - (8146193529210519 / 2305843009213693952)"
  proof -
    have "times_binary64 (8146193529210519 / 4611686018427387904) (- 2) = of_int (- 8146193529210519) / 2 ^ 61"
      unfolding times_binary64_def by (rule round_binary64_nearest) simp_all
    then show ?thesis by simp
  qed
  have a39: "times_binary64 (8146193529210519 / 4611686018427387904) 36 = 4582233860180917 / 72057594037927936"
  proof -
    have "times_binary64 (8146193529210519 / 4611686018427387904) 36 = of_int 4582233860180917 / 2 ^ 56"
      unfolding times_binary64_def by (rule round_binary64_nearest) simp_all
    then show ?thesis by simp
  qed
  have a40: "times_binary64 (8146193529210519 / 4611686018427387904) 19 = 2418401203984373 / 72057594037927936"
  proof -
    have "times_binary64 (8146193529210519 / 4611686018427387904) 19 = of_int 4836802407968746 / 2 ^ 57"
      unfolding times_binary64_def by (rule round_binary64_nearest) simp_all
    then show ?thesis by simp
  qed
  have a41: "plus_binary64 (- (33809885253071 / 1125899906842624)) (- (8146193529210519 / 2305843009213693952)) = - (4836802407968745 / 144115188075855872)"
  proof -
    have "plus_binary64 (- (33809885253071 / 1125899906842624)) (- (8146193529210519 / 2305843009213693952)) = of_int (- 4836802407968745) / 2 ^ 57"
      unfolding plus_binary64_def by (rule round_binary64_nearest) simp_all
    then show ?thesis by simp
  qed
  have a42: "plus_binary64 (- (4836802407968745 / 144115188075855872)) (2418401203984373 / 72057594037927936) = 1 / 144115188075855872"
  proof -
    have "plus_binary64 (- (4836802407968745 / 144115188075855872)) (2418401203984373 / 72057594037927936) = of_int 4503599627370496 / 2 ^ 109"
      unfolding plus_binary64_def by (rule round_binary64_nearest) simp_all
    then show ?thesis by simp
  qed
  show ?thesis
    by (simp add: getGradientTensorOfPotential_binary64_def Let_def defaultConstructor_def
        norm_Vector3d_binary64_def setIdentity_def raiseToIntegerPower_binary64_5
        a01 a02 a03 a04 a05 a06 a07 a08 a09 a10 a11 a12 a13 a14 a15 a16 a17 a18 a19 a20 a21 a22
        a23 a24 a25 a26 a27 a28 a29 a30 a31 a32 a33 a34 a35 a36 a37 a38 a39 a40 a41 a42)
qed

lemma tensor_binary64_at_decimal_position:
  "fst (getGradientTensorOfPotential_binary64
        (defaultConstructor
          \<lparr> gravitationalParameter = 1, positionOfOrigin = (0, 0, 0),
            relativePosition = (0, 0, 0) \<rparr>)
        (3602879701896397 / 36028797018963968, 3602879701896397 / 18014398509481984, 5404319552844595 / 18014398509481984)) =
     Some ((- (8443886431352725 / 562949953421312), 4605756235283305 / 562949953421312, 6908634352924957 / 562949953421312),
           (4605756235283305 / 562949953421312, - (6141008313711069 / 2251799813685248), 6908634352924957 / 281474976710656),
           (1727158588231239 / 140737488355328, 1727158588231239 / 70368744177664, 1247392313722561 / 70368744177664)) \<and>
   trace_Matrix3d_binary64
     ((- (8443886431352725 / 562949953421312), 4605756235283305 / 562949953421312, 6908634352924957 / 562949953421312),
      (4605756235283305 / 562949953421312, - (6141008313711069 / 2251799813685248), 6908634352924957 / 281474976710656),
      (1727158588231239 / 140737488355328, 1727158588231239 / 70368744177664, 1247392313722561 / 70368744177664)) =
     - (1 / 140737488355328)"
proof -
  have b01: "minus_binary64 (3602879701896397 / 36028797018963968) 0 = 3602879701896397 / 36028797018963968"
  proof -
    have "minus_binary64 (3602879701896397 / 36028797018963968) 0 = of_int 7205759403792794 / 2 ^ 56"
      unfolding minus_binary64_def by (rule round_binary64_nearest) simp_all
    then show ?thesis by simp
  qed
  have b02: "minus_binary64 (3602879701896397 / 18014398509481984) 0 = 3602879701896397 / 18014398509481984"
  proof -
    have "minus_binary64 (3602879701896397 / 18014398509481984) 0 = of_int 7205759403792794 / 2 ^ 55"
      unfolding minus_binary64_def by (rule round_binary64_nearest) simp_all
    then show ?thesis by simp
  qed
  have b03: "minus_binary64 (5404319552844595 / 18014398509481984) 0 = 5404319552844595 / 18014398509481984"
  proof -
    have "minus_binary64 (5404319552844595 / 18014398509481984) 0 = of_int 5404319552844595 / 2 ^ 54"
      unfolding minus_binary64_def by (rule round_binary64_nearest) simp_all
    then show ?thesis by simp
  qed
  have b04: "times_binary64 (3602879701896397 / 36028797018963968) (3602879701896397 / 36028797018963968) = 1441151880758559 / 144115188075855872"
  proof -
    have "times_binary64 (3602879701896397 / 36028797018963968) (3602879701896397 / 36028797018963968) = of_int 5764607523034236 / 2 ^ 59"
      unfolding times_binary64_def by (rule round_binary64_nearest) simp_all
    then show ?thesis by simp
  qed
  have b05: "times_binary64 (3602879701896397 / 18014398509481984) (3602879701896397 / 18014398509481984) = 1441151880758559 / 36028797018963968"
  proof -
    have "times_binary64 (3602879701896397 / 18014398509481984) (3602879701896397 / 18014398509481984) = of_int 5764607523034236 / 2 ^ 57"
      unfolding times_binary64_def by (rule round_binary64_nearest) simp_all
    then show ?thesis by simp
  qed
  have b06: "times_binary64 (5404319552844595 / 18014398509481984) (5404319552844595 / 18014398509481984) = 3242591731706757 / 36028797018963968"
  proof -
    have "times_binary64 (5404319552844595 / 18014398509481984) (5404319552844595 / 18014398509481984) = of_int 6485183463413514 / 2 ^ 56"
      unfolding times_binary64_def by (rule round_binary64_nearest) simp_all
    then show ?thesis by simp
  qed
  have b07: "plus_binary64 (1441151880758559 / 144115188075855872) (1441151880758559 / 36028797018963968) = 7205759403792795 / 144115188075855872"
  proof -
    have "plus_binary64 (1441151880758559 / 144115188075855872) (1441151880758559 / 36028797018963968) = of_int 7205759403792795 / 2 ^ 57"
      unfolding plus_binary64_def by (rule round_binary64_nearest) simp_all
    then show ?thesis by simp
  qed
  have b08: "plus_binary64 (7205759403792795 / 144115188075855872) (3242591731706757 / 36028797018963968) = 1261007895663739 / 9007199254740992"
  proof -
    have "plus_binary64 (7205759403792795 / 144115188075855872) (3242591731706757 / 36028797018963968) = of_int 5044031582654956 / 2 ^ 55"
      unfolding plus_binary64_def by (rule round_binary64_nearest) simp_all
    then show ?thesis by simp
  qed
  have b09: "sqrt_binary64 (1261007895663739 / 9007199254740992) = 6740370725129275 / 18014398509481984"
  proof -
    have b: "13480741450258549 / 36028797018963968 < sqrt (1261007895663739 / 9007199254740992) \<and> sqrt (1261007895663739 / 9007199254740992) < 13480741450258551 / 36028797018963968"
      by (rule sqrt_between) (simp_all add: power2_eq_square)
    have "sqrt_binary64 (1261007895663739 / 9007199254740992) = of_int 6740370725129275 / 2 ^ 54"
      unfolding sqrt_binary64_def by (rule round_binary64_nearest) (use b in simp_all)
    then show ?thesis by simp
  qed
  have b10: "times_binary64 (6740370725129275 / 18014398509481984) 1 = 6740370725129275 / 18014398509481984"
  proof -
    have "times_binary64 (6740370725129275 / 18014398509481984) 1 = of_int 6740370725129275 / 2 ^ 54"
      unfolding times_binary64_def by (rule round_binary64_nearest) simp_all
    then show ?thesis by simp
  qed
  have b11: "times_binary64 (6740370725129275 / 18014398509481984) (6740370725129275 / 18014398509481984) = 1261007895663739 / 9007199254740992"
  proof -
    have "times_binary64 (6740370725129275 / 18014398509481984) (6740370725129275 / 18014398509481984) = of_int 5044031582654956 / 2 ^ 55"
      unfolding times_binary64_def by (rule round_binary64_nearest) simp_all
    then show ?thesis by simp
  qed
  have b12: "times_binary64 (6740370725129275 / 18014398509481984) (1261007895663739 / 9007199254740992) = 7549215212144789 / 144115188075855872"
  proof -
    have "times_binary64 (6740370725129275 / 18014398509481984) (1261007895663739 / 9007199254740992) = of_int 7549215212144789 / 2 ^ 57"
      unfolding times_binary64_def by (rule round_binary64_nearest) simp_all
    then show ?thesis by simp
  qed
  have b13: "times_binary64 (6740370725129275 / 18014398509481984) (7549215212144789 / 144115188075855872) = 353082210785847 / 18014398509481984"
  proof -
    have "times_binary64 (6740370725129275 / 18014398509481984) (7549215212144789 / 144115188075855872) = of_int 5649315372573552 / 2 ^ 58"
      unfolding times_binary64_def by (rule round_binary64_nearest) simp_all
    then show ?thesis by simp
  qed
  have b14: "times_binary64 (6740370725129275 / 18014398509481984) (353082210785847 / 18014398509481984) = 8455121037602165 / 1152921504606846976"
  proof -
    have "times_binary64 (6740370725129275 / 18014398509481984) (353082210785847 / 18014398509481984) = of_int 8455121037602165 / 2 ^ 60"
      unfolding times_binary64_def by (rule round_binary64_nearest) simp_all
    then show ?thesis by simp
  qed
  have b15: "divide_binary64 1 (8455121037602165 / 1152921504606846976) = Some (4797662745086775 / 35184372088832)"
  proof (rule divide_binary64_Some)
    show "8455121037602165 / 1152921504606846976 \<noteq> (0 :: real)" by simp
    have "round_binary64 (1 / (8455121037602165 / 1152921504606846976)) = of_int 4797662745086775 / 2 ^ 45"
      by (rule round_binary64_nearest) simp_all
    then show "round_binary64 (1 / (8455121037602165 / 1152921504606846976)) = 4797662745086775 / 35184372088832" by simp
  qed
  have b16: "times_binary64 3 (3602879701896397 / 36028797018963968) = 1351079888211149 / 4503599627370496"
  proof -
    have "times_binary64 3 (3602879701896397 / 36028797018963968) = of_int (if even (5404319552844595 :: int) then 5404319552844595 else 5404319552844595 + 1) / 2 ^ 54"
      unfolding times_binary64_def by (rule round_binary64_tie) simp_all
    then show ?thesis by simp
  qed
  have b17: "times_binary64 3 (3602879701896397 / 18014398509481984) = 1351079888211149 / 2251799813685248"
  proof -
    have "times_binary64 3 (3602879701896397 / 18014398509481984) = of_int (if even (5404319552844595 :: int) then 5404319552844595 else 5404319552844595 + 1) / 2 ^ 53"
      unfolding times_binary64_def by (rule round_binary64_tie) simp_all
    then show ?thesis by simp
  qed
  have b18: "times_binary64 3 (5404319552844595 / 18014398509481984) = 2026619832316723 / 2251799813685248"
  proof -
    have "times_binary64 3 (5404319552844595 / 18014398509481984) = of_int (if even (8106479329266892 :: int) then 8106479329266892 else 8106479329266892 + 1) / 2 ^ 53"
      unfolding times_binary64_def by (rule round_binary64_tie) simp_all
    then show ?thesis by simp
  qed
  have b19: "times_binary64 (1351079888211149 / 4503599627370496) (3602879701896397 / 36028797018963968) = 4323455642275677 / 144115188075855872"
  proof -
    have "times_binary64 (1351079888211149 / 4503599627370496) (3602879701896397 / 36028797018963968) = of_int 8646911284551354 / 2 ^ 58"
      unfolding times_binary64_def by (rule round_binary64_nearest) simp_all
    then show ?thesis by simp
  qed
  have b20: "times_binary64 (1351079888211149 / 4503599627370496) (3602879701896397 / 18014398509481984) = 4323455642275677 / 72057594037927936"
  proof -
    have "times_binary64 (1351079888211149 / 4503599627370496) (3602879701896397 / 18014398509481984) = of_int 8646911284551354 / 2 ^ 57"
      unfolding times_binary64_def by (rule round_binary64_nearest) simp_all
    then show ?thesis by simp
  qed
  have b21: "times_binary64 (1351079888211149 / 4503599627370496) (5404319552844595 / 18014398509481984) = 6485183463413515 / 72057594037927936"
  proof -
    have "times_binary64 (1351079888211149 / 4503599627370496) (5404319552844595 / 18014398509481984) = of_int 6485183463413515 / 2 ^ 56"
      unfolding times_binary64_def by (rule round_binary64_nearest) simp_all
    then show ?thesis by simp
  qed
  have b22: "times_binary64 (1351079888211149 / 2251799813685248) (3602879701896397 / 36028797018963968) = 4323455642275677 / 72057594037927936"
  proof -
    have "times_binary64 (1351079888211149 / 2251799813685248) (3602879701896397 / 36028797018963968) = of_int 8646911284551354 / 2 ^ 57"
      unfolding times_binary64_def by (rule round_binary64_nearest) simp_all
    then show ?thesis by simp
  qed
  have b23: "times_binary64 (1351079888211149 / 2251799813685248) (3602879701896397 / 18014398509481984) = 4323455642275677 / 36028797018963968"
  proof -
    have "times_binary64 (1351079888211149 / 2251799813685248) (3602879701896397 / 18014398509481984) = of_int 8646911284551354 / 2 ^ 56"
      unfolding times_binary64_def by (rule round_binary64_nearest) simp_all
    then show ?thesis by simp
  qed
  have b24: "times_binary64 (1351079888211149 / 2251799813685248) (5404319552844595 / 18014398509481984) = 6485183463413515 / 36028797018963968"
  proof -
    have "times_binary64 (1351079888211149 / 2251799813685248) (5404319552844595 / 18014398509481984) = of_int 6485183463413515 / 2 ^ 55"
      unfolding times_binary64_def by (rule round_binary64_nearest) simp_all
    then show ?thesis by simp
  qed
  have b25: "times_binary64 (2026619832316723 / 2251799813685248) (3602879701896397 / 36028797018963968) = 3242591731706757 / 36028797018963968"
  proof -
    have "times_binary64 (2026619832316723 / 2251799813685248) (3602879701896397 / 36028797018963968) = of_int 6485183463413514 / 2 ^ 56"
      unfolding times_binary64_def by (rule round_binary64_nearest) simp_all
    then show ?thesis by simp
  qed
  have b26: "times_binary64 (2026619832316723 / 2251799813685248) (3602879701896397 / 18014398509481984) = 3242591731706757 / 18014398509481984"
  proof -
    have "times_binary64 (2026619832316723 / 2251799813685248) (3602879701896397 / 18014398509481984) = of_int 6485183463413514 / 2 ^ 55"
      unfolding times_binary64_def by (rule round_binary64_nearest) simp_all
    then show ?thesis by simp
  qed
  have b27: "times_binary64 (2026619832316723 / 2251799813685248) (5404319552844595 / 18014398509481984) = 4863887597560135 / 18014398509481984"
  proof -
    have "times_binary64 (2026619832316723 / 2251799813685248) (5404319552844595 / 18014398509481984) = of_int 4863887597560135 / 2 ^ 54"
      unfolding times_binary64_def by (rule round_binary64_nearest) simp_all
    then show ?thesis by simp
  qed
  have b28: "times_binary64 (1261007895663739 / 9007199254740992) 1 = 1261007895663739 / 9007199254740992"
  proof -
    have "times_binary64 (1261007895663739 / 9007199254740992) 1 = of_int 5044031582654956 / 2 ^ 55"
      unfolding times_binary64_def by (rule round_binary64_nearest) simp_all
    then show ?thesis by simp
  qed
  have b29: "times_binary64 (1261007895663739 / 9007199254740992) 0 = 0"
    by (simp add: times_binary64_def round_binary64_zero)
  have b30: "minus_binary64 (4323455642275677 / 144115188075855872) (1261007895663739 / 9007199254740992) = - (3963167672086037 / 36028797018963968)"
  proof -
    have "minus_binary64 (4323455642275677 / 144115188075855872) (1261007895663739 / 9007199254740992) = of_int (if even (- 7926335344172074 :: int) then - 7926335344172074 else - 7926335344172074 + 1) / 2 ^ 56"
      unfolding minus_binary64_def by (rule round_binary64_tie) simp_all
    then show ?thesis by simp
  qed
  have b31: "minus_binary64 (4323455642275677 / 72057594037927936) 0 = 4323455642275677 / 72057594037927936"
  proof -
    have "minus_binary64 (4323455642275677 / 72057594037927936) 0 = of_int 8646911284551354 / 2 ^ 57"
      unfolding minus_binary64_def by (rule round_binary64_nearest) simp_all
    then show ?thesis by simp
  qed
  have b32: "minus_binary64 (6485183463413515 / 72057594037927936) 0 = 6485183463413515 / 72057594037927936"
  proof -
    have "minus_binary64 (6485183463413515 / 72057594037927936) 0 = of_int 6485183463413515 / 2 ^ 56"
      unfolding minus_binary64_def by (rule round_binary64_nearest) simp_all
    then show ?thesis by simp
  qed
  have b33: "minus_binary64 (4323455642275677 / 36028797018963968) (1261007895663739 / 9007199254740992) = - (720575940379279 / 36028797018963968)"
  proof -
    have "minus_binary64 (4323455642275677 / 36028797018963968) (1261007895663739 / 9007199254740992) = of_int (- 5764607523034232) / 2 ^ 58"
      unfolding minus_binary64_def by (rule round_binary64_nearest) simp_all
    then show ?thesis by simp
  qed
  have b34: "minus_binary64 (6485183463413515 / 36028797018963968) 0 = 6485183463413515 / 36028797018963968"
  proof -
    have "minus_binary64 (6485183463413515 / 36028797018963968) 0 = of_int 6485183463413515 / 2 ^ 55"
      unfolding minus_binary64_def by (rule round_binary64_nearest) simp_all
    then show ?thesis by simp
  qed
  have b35: "minus_binary64 (3242591731706757 / 36028797018963968) 0 = 3242591731706757 / 36028797018963968"
  proof -
    have "minus_binary64 (3242591731706757 / 36028797018963968) 0 = of_int 6485183463413514 / 2 ^ 56"
      unfolding minus_binary64_def by (rule round_binary64_nearest) simp_all
    then show ?thesis by simp
  qed
  have b36: "minus_binary64 (3242591731706757 / 18014398509481984) 0 = 3242591731706757 / 18014398509481984"
  proof -
    have "minus_binary64 (3242591731706757 / 18014398509481984) 0 = of_int 6485183463413514 / 2 ^ 55"
      unfolding minus_binary64_def by (rule round_binary64_nearest) simp_all
    then show ?thesis by simp
  qed
  have b37: "minus_binary64 (4863887597560135 / 18014398509481984) (1261007895663739 / 9007199254740992) = 2341871806232657 / 18014398509481984"
  proof -
    have "minus_binary64 (4863887597560135 / 18014398509481984) (1261007895663739 / 9007199254740992) = of_int 4683743612465314 / 2 ^ 55"
      unfolding minus_binary64_def by (rule round_binary64_nearest) simp_all
    then show ?thesis by simp
  qed
  have b38: "times_binary64 (4797662745086775 / 35184372088832) (- (3963167672086037 / 36028797018963968)) = - (8443886431352725 / 562949953421312)"
  proof -
    have "times_binary64 (4797662745086775 / 35184372088832) (- (3963167672086037 / 36028797018963968)) = of_int (- 8443886431352725) / 2 ^ 49"
      unfolding times_binary64_def by (rule round_binary64_nearest) simp_all
    then show ?thesis by simp
  qed
  have b39: "times_binary64 (4797662745086775 / 35184372088832) (4323455642275677 / 72057594037927936) = 4605756235283305 / 562949953421312"
  proof -
    have "times_binary64 (4797662745086775 / 35184372088832) (4323455642275677 / 72057594037927936) = of_int 4605756235283305 / 2 ^ 49"
      unfolding times_binary64_def by (rule round_binary64_nearest) simp_all
    then show ?thesis by simp
  qed
  have b40: "times_binary64 (4797662745086775 / 35184372088832) (6485183463413515 / 72057594037927936) = 6908634352924957 / 562949953421312"
  proof -
    have "times_binary64 (4797662745086775 / 35184372088832) (6485183463413515 / 72057594037927936) = of_int 6908634352924957 / 2 ^ 49"
      unfolding times_binary64_def by (rule round_binary64_nearest) simp_all
    then show ?thesis by simp
  qed
  have b41: "times_binary64 (4797662745086775 / 35184372088832) (- (720575940379279 / 36028797018963968)) = - (6141008313711069 / 2251799813685248)"
  proof -
    have "times_binary64 (4797662745086775 / 35184372088832) (- (720575940379279 / 36028797018963968)) = of_int (- 6141008313711069) / 2 ^ 51"
      unfolding times_binary64_def by (rule round_binary64_nearest) simp_all
    then show ?thesis by simp
  qed
  have b42: "times_binary64 (4797662745086775 / 35184372088832) (6485183463413515 / 36028797018963968) = 6908634352924957 / 281474976710656"
  proof -
    have "times_binary64 (4797662745086775 / 35184372088832) (6485183463413515 / 36028797018963968) = of_int 6908634352924957 / 2 ^ 48"
      unfolding times_binary64_def by (rule round_binary64_nearest) simp_all
    then show ?thesis by simp
  qed
  have b43: "times_binary64 (4797662745086775 / 35184372088832) (3242591731706757 / 36028797018963968) = 1727158588231239 / 140737488355328"
  proof -
    have "times_binary64 (4797662745086775 / 35184372088832) (3242591731706757 / 36028797018963968) = of_int 6908634352924956 / 2 ^ 49"
      unfolding times_binary64_def by (rule round_binary64_nearest) simp_all
    then show ?thesis by simp
  qed
  have b44: "times_binary64 (4797662745086775 / 35184372088832) (3242591731706757 / 18014398509481984) = 1727158588231239 / 70368744177664"
  proof -
    have "times_binary64 (4797662745086775 / 35184372088832) (3242591731706757 / 18014398509481984) = of_int 6908634352924956 / 2 ^ 48"
      unfolding times_binary64_def by (rule round_binary64_nearest) simp_all
    then show ?thesis by simp
  qed
  have b45: "times_binary64 (4797662745086775 / 35184372088832) (2341871806232657 / 18014398509481984) = 1247392313722561 / 70368744177664"
  proof -
    have "times_binary64 (4797662745086775 / 35184372088832) (2341871806232657 / 18014398509481984) = of_int 4989569254890244 / 2 ^ 48"
      unfolding times_binary64_def by (rule round_binary64_nearest) simp_all
    then show ?thesis by simp
  qed
  have b46: "plus_binary64 (- (8443886431352725 / 562949953421312)) (- (6141008313711069 / 2251799813685248)) = - (2494784627445123 / 140737488355328)"
  proof -
    have "plus_binary64 (- (8443886431352725 / 562949953421312)) (- (6141008313711069 / 2251799813685248)) = of_int (- 4989569254890246) / 2 ^ 48"
      unfolding plus_binary64_def by (rule round_binary64_nearest) simp_all
    then show ?thesis by simp
  qed
  have b47: "plus_binary64 (- (2494784627445123 / 140737488355328)) (1247392313722561 / 70368744177664) = - (1 / 140737488355328)"
  proof -
    have "plus_binary64 (- (2494784627445123 / 140737488355328)) (1247392313722561 / 70368744177664) = of_int (- 4503599627370496) / 2 ^ 99"
      unfolding plus_binary64_def by (rule round_binary64_nearest) simp_all
    then show ?thesis by simp
  qed
  show ?thesis
    by (simp add: getGradientTensorOfPotential_binary64_def Let_def defaultConstructor_def
        norm_Vector3d_binary64_def setIdentity_def raiseToIntegerPower_binary64_5
        b01 b02 b03 b04 b05 b06 b07 b08 b09 b10 b11 b12 b13 b14 b15 b16 b17 b18 b19 b20 b21 b22
        b23 b24 b25 b26 b27 b28 b29 b30 b31 b32 b33 b34 b35 b36 b37 b38 b39 b40 b41 b42 b43 b44
        b45 b46 b47)
qed

text \<open>
  Claim C4 fails on the binary64 evaluation. A number \<open>m / 2 ^ k\<close> below is the
  binary64 number with the significand \<open>m\<close>. At the first input the diagonal of
  the returned matrix sums to \<open>9 / 2 ^ 61\<close>, and to \<open>1 / 2 ^ 57\<close> (about
  6.9e-18) when the sum is taken in binary64: the trace is not zero. At the second input
  the returned matrix is not equal to its transpose: its entries (1, 3) and (3, 1)
  differ, and so do (2, 3) and (3, 2), because three times the first coordinate, times
  the third, rounds to another number than three times the third, times the first. At
  both inputs the relative position is not the zero vector.
\<close>

theorem getGradientTensorOfPotential_binary64_not_symmetric_not_traceless:
  "minus_Vector3d (3, 5, 7) (1, 2, 3) \<noteq> (0, 0, 0) \<and>
   fst (getGradientTensorOfPotential_binary64
      (defaultConstructor
      \<lparr> gravitationalParameter = 8, positionOfOrigin = (1, 2, 3),
        relativePosition = (0, 0, 0) \<rparr>)
      (3, 5, 7)) =
     Some ((- (8655330624786176 / 2 ^ 58), 4582233860180917 / 2 ^ 57, 6109645146907889 / 2 ^ 57),
           (4582233860180917 / 2 ^ 57, - (8146193529210519 / 2 ^ 61), 4582233860180917 / 2 ^ 56),
           (6109645146907889 / 2 ^ 57, 4582233860180917 / 2 ^ 56, 4836802407968746 / 2 ^ 57)) \<and>
   trace_Matrix3d
     ((- (8655330624786176 / 2 ^ 58), 4582233860180917 / 2 ^ 57, 6109645146907889 / 2 ^ 57),
      (4582233860180917 / 2 ^ 57, - (8146193529210519 / 2 ^ 61), 4582233860180917 / 2 ^ 56),
      (6109645146907889 / 2 ^ 57, 4582233860180917 / 2 ^ 56, 4836802407968746 / 2 ^ 57)) =
     9 / 2 ^ 61 \<and>
   trace_Matrix3d_binary64
     ((- (8655330624786176 / 2 ^ 58), 4582233860180917 / 2 ^ 57, 6109645146907889 / 2 ^ 57),
      (4582233860180917 / 2 ^ 57, - (8146193529210519 / 2 ^ 61), 4582233860180917 / 2 ^ 56),
      (6109645146907889 / 2 ^ 57, 4582233860180917 / 2 ^ 56, 4836802407968746 / 2 ^ 57)) =
     1 / 2 ^ 57 \<and>
   \<not> (\<exists>m. fst (getGradientTensorOfPotential_binary64
      (defaultConstructor
      \<lparr> gravitationalParameter = 8, positionOfOrigin = (1, 2, 3),
        relativePosition = (0, 0, 0) \<rparr>)
      (3, 5, 7)) = Some m \<and>
        transpose_Matrix3d m = m \<and> trace_Matrix3d m = 0) \<and>
   minus_Vector3d
     (7205759403792794 / 2 ^ 56, 7205759403792794 / 2 ^ 55, 5404319552844595 / 2 ^ 54) (0, 0, 0) \<noteq> (0, 0, 0) \<and>
   fst (getGradientTensorOfPotential_binary64
      (defaultConstructor
      \<lparr> gravitationalParameter = 1, positionOfOrigin = (0, 0, 0),
        relativePosition = (0, 0, 0) \<rparr>)
      (7205759403792794 / 2 ^ 56, 7205759403792794 / 2 ^ 55, 5404319552844595 / 2 ^ 54)) =
     Some ((- (8443886431352725 / 2 ^ 49), 4605756235283305 / 2 ^ 49, 6908634352924957 / 2 ^ 49),
           (4605756235283305 / 2 ^ 49, - (6141008313711069 / 2 ^ 51), 6908634352924957 / 2 ^ 48),
           (6908634352924956 / 2 ^ 49, 6908634352924956 / 2 ^ 48, 4989569254890244 / 2 ^ 48)) \<and>
   transpose_Matrix3d
     ((- (8443886431352725 / 2 ^ 49), 4605756235283305 / 2 ^ 49, 6908634352924957 / 2 ^ 49),
      (4605756235283305 / 2 ^ 49, - (6141008313711069 / 2 ^ 51), 6908634352924957 / 2 ^ 48),
      (6908634352924956 / 2 ^ 49, 6908634352924956 / 2 ^ 48, 4989569254890244 / 2 ^ 48)) \<noteq>
     ((- (8443886431352725 / 2 ^ 49), 4605756235283305 / 2 ^ 49, 6908634352924957 / 2 ^ 49),
      (4605756235283305 / 2 ^ 49, - (6141008313711069 / 2 ^ 51), 6908634352924957 / 2 ^ 48),
      (6908634352924956 / 2 ^ 49, 6908634352924956 / 2 ^ 48, 4989569254890244 / 2 ^ 48))"
  using tensor_binary64_at_integer_position tensor_binary64_at_decimal_position
  by simp

text \<open>
  Claim C4, as amended. In exact arithmetic, for every object and every queried position
  whose relative position is not the zero vector, the value of the expression that
  \<open>getGradientTensorOfPotential\<close> evaluates is a matrix equal to its transpose
  whose diagonal sums to zero. (The binary64 evaluation of the same expression has the two
  properties up to its rounding errors only, as the two inputs above show.)
\<close>

theorem getGradientTensorOfPotential_symmetric_traceless:
  assumes "minus_Vector3d position (positionOfOrigin s) \<noteq> (0, 0, 0)"
  shows "\<exists>m. fst (getGradientTensorOfPotential s position) = Some m \<and>
           transpose_Matrix3d m = m \<and> trace_Matrix3d m = 0"
proof -
  define r where "r = minus_Vector3d position (positionOfOrigin s)"
  have n: "norm_Vector3d r \<noteq> 0"
    using assms norm_Vector3d_eq_0_iff [of r] by (simp add: r_def)
  show ?thesis
    using n r_def [symmetric]
    by (simp add: getGradientTensorOfPotential_def Let_def divide_double_def
        raiseToIntegerPower_power transpose_scale_Matrix3d trace_scale_Matrix3d
        tensor_kernel_symmetric tensor_kernel_traceless)
qed

theorem getGradientTensorOfPotential_symmetric_traceless_witness:
  "minus_Vector3d (3, 5, 7)
     (positionOfOrigin
        (defaultConstructor
           \<lparr> gravitationalParameter = 8, positionOfOrigin = (1, 2, 3),
             relativePosition = (0, 0, 0) \<rparr>)) \<noteq> (0, 0, 0) \<and>
   (\<exists>m. fst (getGradientTensorOfPotential
               (defaultConstructor
                  \<lparr> gravitationalParameter = 8, positionOfOrigin = (1, 2, 3),
                    relativePosition = (0, 0, 0) \<rparr>) (3, 5, 7)) = Some m \<and>
        transpose_Matrix3d m = m \<and> trace_Matrix3d m = 0)"
  using getGradientTensorOfPotential_symmetric_traceless
    [of "(3, 5, 7)"
        "defaultConstructor
           \<lparr> gravitationalParameter = 8, positionOfOrigin = (1, 2, 3),
             relativePosition = (0, 0, 0) \<rparr>"]
  by (simp add: defaultConstructor_def)

section \<open>The fields the evaluations do not read\<close>

text \<open>
  Claim C9. Two objects with the same gravitational parameter and the same position of
  the origin, however they differ in J2, J3, J4, the degree, the order and the reference
  radius (and in the scratch relative position), give the same potential, the same
  gradient and the same gradient tensor at every queried position.
\<close>

theorem evaluation_reads_only_parameter_and_origin:
  assumes "gravitationalParameter s1 = gravitationalParameter s2"
    and "positionOfOrigin s1 = positionOfOrigin s2"
  shows "fst (getPotential s1 position) = fst (getPotential s2 position) \<and>
         fst (getGradientOfPotential s1 position) = fst (getGradientOfPotential s2 position) \<and>
         fst (getGradientTensorOfPotential s1 position) =
           fst (getGradientTensorOfPotential s2 position)"
  using assms
  by (simp add: getPotential_def getGradientOfPotential_def getGradientTensorOfPotential_def
      Let_def cong: option.case_cong)

theorem evaluation_reads_only_parameter_and_origin_witness:
  "gravitationalParameter
     (defaultConstructor
        \<lparr> gravitationalParameter = 8, positionOfOrigin = (1, 2, 3),
          relativePosition = (0, 0, 0) \<rparr>) =
   gravitationalParameter
     \<lparr> gravitationalParameter = 8, positionOfOrigin = (1, 2, 3),
       relativePosition = (9, 9, 9), degreeOfExpansion = 4, orderOfExpansion = 2,
       referenceRadius = 6378137,
       j2SphericalHarmonicsGravityFieldCoefficient = 0.001082616,
       j3SphericalHarmonicsGravityFieldCoefficient = - 0.00000253881,
       j4SphericalHarmonicsGravityFieldCoefficient = - 0.00000165597 \<rparr> \<and>
   positionOfOrigin
     (defaultConstructor
        \<lparr> gravitationalParameter = 8, positionOfOrigin = (1, 2, 3),
          relativePosition = (0, 0, 0) \<rparr>) =
   positionOfOrigin
     \<lparr> gravitationalParameter = 8, positionOfOrigin = (1, 2, 3),
       relativePosition = (9, 9, 9), degreeOfExpansion = 4, orderOfExpansion = 2,
       referenceRadius = 6378137,
       j2SphericalHarmonicsGravityFieldCoefficient = 0.001082616,
       j3SphericalHarmonicsGravityFieldCoefficient = - 0.00000253881,
       j4SphericalHarmonicsGravityFieldCoefficient = - 0.00000165597 \<rparr> \<and>
   fst (getPotential
          (defaultConstructor
             \<lparr> gravitationalParameter = 8, positionOfOrigin = (1, 2, 3),
               relativePosition = (0, 0, 0) \<rparr>) (3, 5, 7)) =
   fst (getPotential
          \<lparr> gravitationalParameter = 8, positionOfOrigin = (1, 2, 3),
            relativePosition = (9, 9, 9), degreeOfExpansion = 4, orderOfExpansion = 2,
            referenceRadius = 6378137,
            j2SphericalHarmonicsGravityFieldCoefficient = 0.001082616,
            j3SphericalHarmonicsGravityFieldCoefficient = - 0.00000253881,
            j4SphericalHarmonicsGravityFieldCoefficient = - 0.00000165597 \<rparr> (3, 5, 7)) \<and>
   fst (getGradientOfPotential
          (defaultConstructor
             \<lparr> gravitationalParameter = 8, positionOfOrigin = (1, 2, 3),
               relativePosition = (0, 0, 0) \<rparr>) (3, 5, 7)) =
   fst (getGradientOfPotential
          \<lparr> gravitationalParameter = 8, positionOfOrigin = (1, 2, 3),
            relativePosition = (9, 9, 9), degreeOfExpansion = 4, orderOfExpansion = 2,
            referenceRadius = 6378137,
            j2SphericalHarmonicsGravityFieldCoefficient = 0.001082616,
            j3SphericalHarmonicsGravityFieldCoefficient = - 0.00000253881,
            j4SphericalHarmonicsGravityFieldCoefficient = - 0.00000165597 \<rparr> (3, 5, 7)) \<and>
   fst (getGradientTensorOfPotential
          (defaultConstructor
             \<lparr> gravitationalParameter = 8, positionOfOrigin = (1, 2, 3),
               relativePosition = (0, 0, 0) \<rparr>) (3, 5, 7)) =
   fst (getGradientTensorOfPotential
          \<lparr> gravitationalParameter = 8, positionOfOrigin = (1, 2, 3),
            relativePosition = (9, 9, 9), degreeOfExpansion = 4, orderOfExpansion = 2,
            referenceRadius = 6378137,
            j2SphericalHarmonicsGravityFieldCoefficient = 0.001082616,
            j3SphericalHarmonicsGravityFieldCoefficient = - 0.00000253881,
            j4SphericalHarmonicsGravityFieldCoefficient = - 0.00000165597 \<rparr> (3, 5, 7))"
  using evaluation_reads_only_parameter_and_origin
    [of "defaultConstructor
           \<lparr> gravitationalParameter = 8, positionOfOrigin = (1, 2, 3),
             relativePosition = (0, 0, 0) \<rparr>"
        "\<lparr> gravitationalParameter = 8, positionOfOrigin = (1, 2, 3),
           relativePosition = (9, 9, 9), degreeOfExpansion = 4, orderOfExpansion = 2,
           referenceRadius = 6378137,
           j2SphericalHarmonicsGravityFieldCoefficient = 0.001082616,
           j3SphericalHarmonicsGravityFieldCoefficient = - 0.00000253881,
           j4SphericalHarmonicsGravityFieldCoefficient = - 0.00000165597 \<rparr>"
        "(3, 5, 7)"]
  by (simp add: defaultConstructor_def)

section \<open>Default construction\<close>

text \<open>
  Claim C10 has the default constructor leave, in the degree, the order, the reference
  radius and J2, J3, J4, a value that marks the field as unset and that no configured
  value equals. The initialisers are \<^verbatim>\<open>-0\<close> and \<^verbatim>\<open>-0.0\<close>,
  and minus zero is zero: for the degree and the order, storing the degree 0 and the
  order 0 (the expansion truncated to its point mass term) in a default constructed
  object gives back the very same object, so nothing tells the two apart.
\<close>

theorem default_degree_and_order_equal_configured_zero:
  "degreeOfExpansion
     (defaultConstructor
        \<lparr> gravitationalParameter = 8, positionOfOrigin = (1, 2, 3),
          relativePosition = (0, 0, 0) \<rparr>) =
   degreeOfExpansion
     (setDegreeOfExpansion
        (defaultConstructor
           \<lparr> gravitationalParameter = 8, positionOfOrigin = (1, 2, 3),
             relativePosition = (0, 0, 0) \<rparr>) 0) \<and>
   orderOfExpansion
     (defaultConstructor
        \<lparr> gravitationalParameter = 8, positionOfOrigin = (1, 2, 3),
          relativePosition = (0, 0, 0) \<rparr>) =
   orderOfExpansion
     (setOrderOfExpansion
        (defaultConstructor
           \<lparr> gravitationalParameter = 8, positionOfOrigin = (1, 2, 3),
             relativePosition = (0, 0, 0) \<rparr>) 0) \<and>
   setOrderOfExpansion
     (setDegreeOfExpansion
        (defaultConstructor
           \<lparr> gravitationalParameter = 8, positionOfOrigin = (1, 2, 3),
             relativePosition = (0, 0, 0) \<rparr>) 0) 0 =
   defaultConstructor
     \<lparr> gravitationalParameter = 8, positionOfOrigin = (1, 2, 3),
       relativePosition = (0, 0, 0) \<rparr>"
  by (simp add: defaultConstructor_def setDegreeOfExpansion_def setOrderOfExpansion_def)

text \<open>
  Claim C10, as amended. After default construction the degree and the order of
  expansion are 0, and the reference radius and J2, J3, J4 are zero, whatever the base
  class left in the inherited fields. For the degree and the order this is a value a
  caller can store as well: \<open>setDegreeOfExpansion\<close> and \<open>setOrderOfExpansion\<close>
  with the argument 0 leave a default constructed object as it is. The zero reference
  radius differs from every positive radius \<open>setReferenceRadius\<close> can store,
  and the zero reference radius and the zero coefficients differ from the values either
  predefined Earth stores.
\<close>

theorem default_construction_values:
  "degreeOfExpansion (defaultConstructor base) = 0 \<and>
   orderOfExpansion (defaultConstructor base) = 0 \<and>
   referenceRadius (defaultConstructor base) = 0 \<and>
   j2SphericalHarmonicsGravityFieldCoefficient (defaultConstructor base) = 0 \<and>
   j3SphericalHarmonicsGravityFieldCoefficient (defaultConstructor base) = 0 \<and>
   j4SphericalHarmonicsGravityFieldCoefficient (defaultConstructor base) = 0 \<and>
   setDegreeOfExpansion (defaultConstructor base) 0 = defaultConstructor base \<and>
   setOrderOfExpansion (defaultConstructor base) 0 = defaultConstructor base \<and>
   (0 < r \<longrightarrow>
      referenceRadius (defaultConstructor base) \<noteq> referenceRadius (setReferenceRadius s r)) \<and>
   referenceRadius (defaultConstructor base) \<noteq>
     referenceRadius
       (snd (setPredefinedSphericalHarmonicsGravityFieldSettings s earthWorldGeodeticSystem72)) \<and>
   referenceRadius (defaultConstructor base) \<noteq>
     referenceRadius
       (snd (setPredefinedSphericalHarmonicsGravityFieldSettings s earthWorldGeodeticSystem84)) \<and>
   j2SphericalHarmonicsGravityFieldCoefficient (defaultConstructor base) \<noteq>
     j2SphericalHarmonicsGravityFieldCoefficient
       (snd (setPredefinedSphericalHarmonicsGravityFieldSettings s earthWorldGeodeticSystem72)) \<and>
   j2SphericalHarmonicsGravityFieldCoefficient (defaultConstructor base) \<noteq>
     j2SphericalHarmonicsGravityFieldCoefficient
       (snd (setPredefinedSphericalHarmonicsGravityFieldSettings s earthWorldGeodeticSystem84)) \<and>
   j3SphericalHarmonicsGravityFieldCoefficient (defaultConstructor base) \<noteq>
     j3SphericalHarmonicsGravityFieldCoefficient
       (snd (setPredefinedSphericalHarmonicsGravityFieldSettings s earthWorldGeodeticSystem72)) \<and>
   j3SphericalHarmonicsGravityFieldCoefficient (defaultConstructor base) \<noteq>
     j3SphericalHarmonicsGravityFieldCoefficient
       (snd (setPredefinedSphericalHarmonicsGravityFieldSettings s earthWorldGeodeticSystem84)) \<and>
   j4SphericalHarmonicsGravityFieldCoefficient (defaultConstructor base) \<noteq>
     j4SphericalHarmonicsGravityFieldCoefficient
       (snd (setPredefinedSphericalHarmonicsGravityFieldSettings s earthWorldGeodeticSystem72)) \<and>
   j4SphericalHarmonicsGravityFieldCoefficient (defaultConstructor base) \<noteq>
     j4SphericalHarmonicsGravityFieldCoefficient
       (snd (setPredefinedSphericalHarmonicsGravityFieldSettings s earthWorldGeodeticSystem84))"
  by (simp add: defaultConstructor_def setDegreeOfExpansion_def setOrderOfExpansion_def
      setReferenceRadius_def)

theorem default_construction_values_witness:
  "(0 :: real) < 6378137 \<and>
   degreeOfExpansion
     (defaultConstructor
        \<lparr> gravitationalParameter = 8, positionOfOrigin = (1, 2, 3),
          relativePosition = (0, 0, 0) \<rparr>) = 0 \<and>
   orderOfExpansion
     (defaultConstructor
        \<lparr> gravitationalParameter = 8, positionOfOrigin = (1, 2, 3),
          relativePosition = (0, 0, 0) \<rparr>) = 0 \<and>
   referenceRadius
     (defaultConstructor
        \<lparr> gravitationalParameter = 8, positionOfOrigin = (1, 2, 3),
          relativePosition = (0, 0, 0) \<rparr>) \<noteq>
   referenceRadius
     (setReferenceRadius
        (defaultConstructor
           \<lparr> gravitationalParameter = 8, positionOfOrigin = (1, 2, 3),
             relativePosition = (0, 0, 0) \<rparr>) 6378137)"
  using default_construction_values
    [where base = "\<lparr> gravitationalParameter = 8, positionOfOrigin = (1, 2, 3),
                      relativePosition = (0, 0, 0) \<rparr>"
       and r = 6378137
       and s = "defaultConstructor
                  \<lparr> gravitationalParameter = 8, positionOfOrigin = (1, 2, 3),
                    relativePosition = (0, 0, 0) \<rparr>"]
  by simp

end
